theory Spec2Isabelle
  imports Main
begin

section \<open>pzlog: configuration, level registry\<close>

text \<open>
  The source file \<^verbatim>\<open>pzlog/log.go\<close> holds two texts of the package. The first
  (lines 1 to 219) embeds \<^verbatim>\<open>lumberjack.Logger\<close> in the configuration and has a
  format name \<^verbatim>\<open>Encoder\<close>; the second (lines 220 to 410) declares the rotation
  parameters as fields of its own and has no format name. Both are embedded. The
  definitions of the first text carry the names of the source; those of the second text
  carry the suffix \<^verbatim>\<open>_flat\<close>.
\<close>

subsection \<open>Severity levels (zapcore.Level)\<close>

datatype Level = DebugLevel | InfoLevel | WarnLevel | ErrorLevel | DPanicLevel | PanicLevel | FatalLevel

text \<open>The numeric value of each level constant, as zapcore declares them.\<close>

fun level_int :: "Level \<Rightarrow> int" where
  "level_int DebugLevel = -1"
| "level_int InfoLevel = 0"
| "level_int WarnLevel = 1"
| "level_int ErrorLevel = 2"
| "level_int DPanicLevel = 3"
| "level_int PanicLevel = 4"
| "level_int FatalLevel = 5"

subsection \<open>strings.ToLower\<close>

text \<open>
  A Go string is a sequence of bytes, here a \<^typ>\<open>string\<close>. On a string of ASCII bytes
  \<^verbatim>\<open>strings.ToLower\<close> adds \<^verbatim>\<open>'a' - 'A'\<close> to each byte in \<^verbatim>\<open>'A'..'Z'\<close>; on any
  other string it is \<^verbatim>\<open>strings.Map(unicode.ToLower, s)\<close>, which is the parameter
  \<open>U\<close> of the model (the Unicode tables are not part of this repository).
\<close>

definition isUpperASCII :: "char \<Rightarrow> bool" where
  "isUpperASCII c = (65 \<le> (of_char c :: nat) \<and> (of_char c :: nat) \<le> 90)"

definition lowerASCII :: "char \<Rightarrow> char" where
  "lowerASCII c = (if isUpperASCII c then char_of ((of_char c :: nat) + 32) else c)"

definition isASCII :: "char \<Rightarrow> bool" where
  "isASCII c = ((of_char c :: nat) < 128)"

definition ToLower :: "(string \<Rightarrow> string) \<Rightarrow> string \<Rightarrow> string" where
  "ToLower U s = (if list_all isASCII s then map lowerASCII s else U s)"

subsection \<open>The level-name table \<^verbatim>\<open>m\<close>\<close>

definition m :: "string \<rightharpoonup> Level" where
  "m = map_of
     [(''debug'', DebugLevel),
      (''info'', InfoLevel),
      (''warn'', WarnLevel),
      (''error'', ErrorLevel),
      (''dpanic'', DPanicLevel),
      (''panic'', PanicLevel),
      (''fatal'', FatalLevel)]"

definition logTmFmt :: string where
  "logTmFmt = ''2006-01-02 15:04:05''"

subsection \<open>Configuration\<close>

text \<open>
  \<^verbatim>\<open>lumberjack.Logger\<close>: the four fields this package reads and writes. Go's \<^verbatim>\<open>int\<close>
  is an \<^typ>\<open>int\<close> here: the code only compares these fields with 0 and assigns
  constants, so no arithmetic can overflow.
\<close>

record lumberjack_Logger =
  Filename :: string
  MaxSize :: int
  MaxBackups :: int
  MaxAge :: int

text \<open>
  The configuration of the second text has the rotation parameters and
  \<^verbatim>\<open>TimeFormat\<close>, \<^verbatim>\<open>LogLevel\<close>, \<^verbatim>\<open>PrintConsole\<close>. The configuration of the first text
  embeds \<^verbatim>\<open>lumberjack.Logger\<close> (whose fields Go promotes: the code writes
  \<^verbatim>\<open>config.Filename\<close>) and has the same three fields and \<^verbatim>\<open>Encoder\<close>. The records
  are declared as successive extensions so that both share their field selectors.
\<close>

record PzlogConfig_flat = lumberjack_Logger +
  TimeFormat :: string
  LogLevel :: string
  PrintConsole :: bool

record PzlogConfig = PzlogConfig_flat +
  Encoder :: string

definition setDefaultValue :: "(string \<Rightarrow> string) \<Rightarrow> PzlogConfig \<Rightarrow> PzlogConfig" where
  "setDefaultValue U config =
     (let c1 = (if Filename config = '''' then config\<lparr>Filename := ''./logs/pzlog.log''\<rparr> else config);
          c2 = (if TimeFormat c1 = '''' then c1\<lparr>TimeFormat := logTmFmt\<rparr> else c1);
          c3 = (if MaxSize c2 < 0 then c2\<lparr>MaxSize := 100\<rparr> else c2);
          c4 = (if MaxBackups c3 < 0 then c3\<lparr>MaxBackups := 10\<rparr> else c3);
          c5 = (if MaxAge c4 < 0 then c4\<lparr>MaxAge := 30\<rparr> else c4);
          c6 = (if Encoder c5 = '''' then c5\<lparr>Encoder := ''json''\<rparr> else c5);
          ok = (m (ToLower U (LogLevel c6)) \<noteq> None)
      in if LogLevel c6 = '''' \<or> \<not> ok then c6\<lparr>LogLevel := ''info''\<rparr> else c6)"

definition setDefaultValue_flat :: "(string \<Rightarrow> string) \<Rightarrow> PzlogConfig_flat \<Rightarrow> PzlogConfig_flat" where
  "setDefaultValue_flat U config =
     (let c1 = (if Filename config = '''' then config\<lparr>Filename := ''./logs/pzlog.log''\<rparr> else config);
          c2 = (if TimeFormat c1 = '''' then c1\<lparr>TimeFormat := logTmFmt\<rparr> else c1);
          c3 = (if MaxSize c2 < 0 then c2\<lparr>MaxSize := 100\<rparr> else c2);
          c4 = (if MaxBackups c3 < 0 then c3\<lparr>MaxBackups := 10\<rparr> else c3);
          c5 = (if MaxAge c4 < 0 then c4\<lparr>MaxAge := 30\<rparr> else c4);
          ok = (m (ToLower U (LogLevel c5)) \<noteq> None)
      in if LogLevel c5 = '''' \<or> \<not> ok then c5\<lparr>LogLevel := ''info''\<rparr> else c5)"

text \<open>\<^verbatim>\<open>getLevelEnabler\<close> is the same in both texts; it reads \<^verbatim>\<open>LogLevel\<close> only.\<close>

definition getLevelEnabler :: "(string \<Rightarrow> string) \<Rightarrow> 'a PzlogConfig_flat_scheme \<Rightarrow> Level" where
  "getLevelEnabler U config =
     (let level = ToLower U (LogLevel config)
      in if level = ''debug'' then DebugLevel
         else if level = ''info'' then InfoLevel
         else if level = ''warn'' then WarnLevel
         else if level = ''error'' then ErrorLevel
         else if level = ''dpanic'' then DPanicLevel
         else if level = ''panic'' then PanicLevel
         else if level = ''fatal'' then FatalLevel
         else InfoLevel)"

text \<open>
  \<^verbatim>\<open>NewDefaultConfig\<close>, the value it builds (its allocation is \<open>NewDefaultConfig\<close>
  below).
\<close>

definition DefaultConfig :: PzlogConfig where
  "DefaultConfig =
     \<lparr>Filename = ''./logs/pzlog.log'', MaxSize = 100, MaxBackups = 10, MaxAge = 30,
      TimeFormat = '''', LogLevel = '''', PrintConsole = False, Encoder = ''''\<rparr>"

definition DefaultConfig_flat :: PzlogConfig_flat where
  "DefaultConfig_flat =
     \<lparr>Filename = ''./logs/pzlog.log'', MaxSize = 100, MaxBackups = 10, MaxAge = 30,
      TimeFormat = logTmFmt, LogLevel = '''', PrintConsole = False\<rparr>"

section \<open>Encoders\<close>

text \<open>
  A \<^verbatim>\<open>zapcore.PrimitiveArrayEncoder\<close> is the list of strings appended to it so far.
  The duration encoders of zapcore work on floating point and are kept as names.
\<close>

type_synonym PrimitiveArrayEncoder = "string list"

definition AppendString :: "string \<Rightarrow> PrimitiveArrayEncoder \<Rightarrow> PrimitiveArrayEncoder" where
  "AppendString s enc = enc @ [s]"

datatype DurationEncoder =
  SecondsDurationEncoder | NanosDurationEncoder | MillisDurationEncoder | StringDurationEncoder

text \<open>
  \<^verbatim>\<open>zapcore.EncoderConfig\<close>, the fields that \<^verbatim>\<open>getEncoder\<close> sets. \<open>'t\<close> stands for
  \<^verbatim>\<open>time.Time\<close> and \<open>'c\<close> for \<^verbatim>\<open>zapcore.EntryCaller\<close>.
\<close>

record ('t, 'c) EncoderConfig =
  TimeKey :: string
  LevelKey :: string
  NameKey :: string
  CallerKey :: string
  FunctionKey :: string
  MessageKey :: string
  StacktraceKey :: string
  LineEnding :: string
  EncodeLevel :: "Level \<Rightarrow> PrimitiveArrayEncoder \<Rightarrow> PrimitiveArrayEncoder"
  EncodeTime :: "'t \<Rightarrow> PrimitiveArrayEncoder \<Rightarrow> PrimitiveArrayEncoder"
  EncodeDuration :: DurationEncoder
  EncodeCaller :: "'c \<Rightarrow> PrimitiveArrayEncoder \<Rightarrow> PrimitiveArrayEncoder"

text \<open>
  What the package calls in the Go library and in zap, taken as parameters:
  \<^verbatim>\<open>t.Format(layout)\<close>, \<^verbatim>\<open>level.CapitalString()\<close>, \<^verbatim>\<open>caller.TrimmedPath()\<close>,
  \<^verbatim>\<open>zap.NewDevelopmentEncoderConfig()\<close> and \<^verbatim>\<open>zap.NewProductionEncoderConfig()\<close>.
\<close>

record ('t, 'c) zap_lib =
  Format :: "'t \<Rightarrow> string \<Rightarrow> string"
  CapitalString :: "Level \<Rightarrow> string"
  TrimmedPath :: "'c \<Rightarrow> string"
  NewDevelopmentEncoderConfig :: "('t, 'c) EncoderConfig"
  NewProductionEncoderConfig :: "('t, 'c) EncoderConfig"

definition OmitKey :: string where
  "OmitKey = ''''"

definition DefaultLineEnding :: string where
  "DefaultLineEnding = [CHR 0x0A]"

definition cEncodeLevel :: "('t, 'c) zap_lib \<Rightarrow> Level \<Rightarrow> PrimitiveArrayEncoder \<Rightarrow> PrimitiveArrayEncoder" where
  "cEncodeLevel Z level enc = AppendString (CapitalString Z level) enc"

definition cEncodeTime :: "('t, 'c) zap_lib \<Rightarrow> 't \<Rightarrow> PrimitiveArrayEncoder \<Rightarrow> PrimitiveArrayEncoder" where
  "cEncodeTime Z t enc = AppendString (Format Z t logTmFmt) enc"

definition cEncodeCaller :: "('t, 'c) zap_lib \<Rightarrow> 'c \<Rightarrow> PrimitiveArrayEncoder \<Rightarrow> PrimitiveArrayEncoder" where
  "cEncodeCaller Z caller enc = AppendString (TrimmedPath Z caller) enc"

definition cEncodeLevel_flat :: "('t, 'c) zap_lib \<Rightarrow> Level \<Rightarrow> PrimitiveArrayEncoder \<Rightarrow> PrimitiveArrayEncoder" where
  "cEncodeLevel_flat Z level enc = AppendString (''['' @ CapitalString Z level @ '']'') enc"

definition cEncodeTime_flat :: "('t, 'c) zap_lib \<Rightarrow> 't \<Rightarrow> PrimitiveArrayEncoder \<Rightarrow> PrimitiveArrayEncoder" where
  "cEncodeTime_flat Z t enc = AppendString (''['' @ Format Z t logTmFmt @ '']'') enc"

definition cEncodeCaller_flat :: "('t, 'c) zap_lib \<Rightarrow> 'c \<Rightarrow> PrimitiveArrayEncoder \<Rightarrow> PrimitiveArrayEncoder" where
  "cEncodeCaller_flat Z caller enc = AppendString (''['' @ TrimmedPath Z caller @ '']'') enc"

subsection \<open>The heap: configuration objects and encoder objects\<close>

text \<open>
  \<^verbatim>\<open>GetLogger\<close> takes a pointer to a configuration and writes through it, and every
  call of \<^verbatim>\<open>zapcore.NewConsoleEncoder\<close> or \<^verbatim>\<open>zapcore.NewJSONEncoder\<close> returns a new
  encoder object. The heap maps an address to the configuration stored there, counts
  the configurations allocated, and counts the encoders built: an encoder carries the
  number it was built under as its identity. A pointer is \<open>Some\<close> address, \<^verbatim>\<open>nil\<close> is
  \<open>None\<close>.
\<close>

record 'cfg heap =
  configs :: "nat \<Rightarrow> 'cfg"
  nconfigs :: nat
  nencoders :: nat

datatype EncoderKind = ConsoleEncoder | JSONEncoder

record ('t, 'c) zap_Encoder =
  enc_id :: nat
  enc_kind :: EncoderKind
  enc_config :: "('t, 'c) EncoderConfig"

definition NewConsoleEncoder ::
  "('t, 'c) EncoderConfig \<Rightarrow> 'cfg heap \<Rightarrow> ('t, 'c) zap_Encoder \<times> 'cfg heap" where
  "NewConsoleEncoder cfg h =
     (\<lparr>enc_id = nencoders h, enc_kind = ConsoleEncoder, enc_config = cfg\<rparr>,
      h\<lparr>nencoders := nencoders h + 1\<rparr>)"

definition NewJSONEncoder ::
  "('t, 'c) EncoderConfig \<Rightarrow> 'cfg heap \<Rightarrow> ('t, 'c) zap_Encoder \<times> 'cfg heap" where
  "NewJSONEncoder cfg h =
     (\<lparr>enc_id = nencoders h, enc_kind = JSONEncoder, enc_config = cfg\<rparr>,
      h\<lparr>nencoders := nencoders h + 1\<rparr>)"

definition getEncoder ::
  "('t, 'c) zap_lib \<Rightarrow> string \<Rightarrow> 'cfg heap \<Rightarrow> ('t, 'c) zap_Encoder \<times> 'cfg heap" where
  "getEncoder Z types h =
     (if types = ''console'' then
        NewConsoleEncoder
          \<lparr>TimeKey = ''ts'', LevelKey = ''level'', NameKey = ''logger'',
           CallerKey = ''caller_line'', FunctionKey = OmitKey, MessageKey = ''msg'',
           StacktraceKey = ''stacktrace'', LineEnding = DefaultLineEnding,
           EncodeLevel = cEncodeLevel Z, EncodeTime = cEncodeTime Z,
           EncodeDuration = SecondsDurationEncoder, EncodeCaller = cEncodeCaller Z\<rparr> h
      else
        NewJSONEncoder
          \<lparr>TimeKey = ''ts'', LevelKey = ''level'', NameKey = ''logger'',
           CallerKey = ''caller_line'', FunctionKey = OmitKey, MessageKey = ''msg'',
           StacktraceKey = ''stacktrace'', LineEnding = DefaultLineEnding,
           EncodeLevel = cEncodeLevel Z, EncodeTime = cEncodeTime Z,
           EncodeDuration = SecondsDurationEncoder, EncodeCaller = cEncodeCaller Z\<rparr> h)"

text \<open>\<^verbatim>\<open>getConsoleEncoder\<close> of the first text; its only call is commented out.\<close>

definition getConsoleEncoder ::
  "('t, 'c) zap_lib \<Rightarrow> string \<Rightarrow> 'cfg heap \<Rightarrow> ('t, 'c) zap_Encoder \<times> 'cfg heap" where
  "getConsoleEncoder Z types h =
     (if types = ''console'' then NewConsoleEncoder (NewDevelopmentEncoderConfig Z) h
      else NewJSONEncoder (NewProductionEncoderConfig Z) h)"

definition getEncoder_flat ::
  "('t, 'c) zap_lib \<Rightarrow> 'cfg heap \<Rightarrow> ('t, 'c) zap_Encoder \<times> 'cfg heap" where
  "getEncoder_flat Z h =
     NewConsoleEncoder
       \<lparr>TimeKey = ''ts'', LevelKey = ''level'', NameKey = ''logger'',
        CallerKey = ''caller_line'', FunctionKey = OmitKey, MessageKey = ''msg'',
        StacktraceKey = ''stacktrace'', LineEnding = ''  '',
        EncodeLevel = cEncodeLevel_flat Z, EncodeTime = cEncodeTime_flat Z,
        EncodeDuration = SecondsDurationEncoder, EncodeCaller = cEncodeCaller_flat Z\<rparr> h"

definition getConsoleEncoder_flat ::
  "('t, 'c) zap_lib \<Rightarrow> 'cfg heap \<Rightarrow> ('t, 'c) zap_Encoder \<times> 'cfg heap" where
  "getConsoleEncoder_flat Z h = NewConsoleEncoder (NewDevelopmentEncoderConfig Z) h"

section \<open>Sinks, cores and the logger\<close>

text \<open>
  A write target is the rotating file writer built from four parameters, or the locked
  standard output (\<^verbatim>\<open>zapcore.Lock(os.Stdout)\<close>).
\<close>

datatype WriteSyncer = AddSync lumberjack_Logger | Lock_Stdout

definition getWriteSyncer :: "PzlogConfig \<Rightarrow> WriteSyncer" where
  "getWriteSyncer config =
     AddSync \<lparr>Filename = Filename config, MaxSize = MaxSize config,
              MaxBackups = MaxBackups config, MaxAge = MaxAge config\<rparr>"

definition GetWriteSyncer_flat :: "PzlogConfig_flat \<Rightarrow> WriteSyncer" where
  "GetWriteSyncer_flat config =
     AddSync \<lparr>Filename = Filename config, MaxSize = MaxSize config,
              MaxBackups = MaxBackups config, MaxAge = MaxAge config\<rparr>"

datatype ('t, 'c) zap_Core =
  NewCore "('t, 'c) zap_Encoder" WriteSyncer Level
| NewTee "('t, 'c) zap_Core list"

text \<open>\<^verbatim>\<open>zap.New(core, zap.AddCaller())\<close>: the logger is its core and the caller option.\<close>

record ('t, 'c) zap_Logger =
  core :: "('t, 'c) zap_Core"
  addCaller :: bool

definition zap_New_AddCaller :: "('t, 'c) zap_Core \<Rightarrow> ('t, 'c) zap_Logger" where
  "zap_New_AddCaller newCore = \<lparr>core = newCore, addCaller = True\<rparr>"

definition NewDefaultConfig :: "PzlogConfig heap \<Rightarrow> nat \<times> PzlogConfig heap" where
  "NewDefaultConfig h =
     (nconfigs h, h\<lparr>configs := (configs h)(nconfigs h := DefaultConfig), nconfigs := nconfigs h + 1\<rparr>)"

definition NewDefaultConfig_flat :: "PzlogConfig_flat heap \<Rightarrow> nat \<times> PzlogConfig_flat heap" where
  "NewDefaultConfig_flat h =
     (nconfigs h,
      h\<lparr>configs := (configs h)(nconfigs h := DefaultConfig_flat), nconfigs := nconfigs h + 1\<rparr>)"

text \<open>
  \<^verbatim>\<open>GetLogger\<close>. \<^verbatim>\<open>setDefaultValue(config)\<close> writes through the pointer: the heap's
  object at that address becomes the normalized one, and everything after reads it.
\<close>

definition GetLogger ::
  "(string \<Rightarrow> string) \<Rightarrow> ('t, 'c) zap_lib \<Rightarrow> nat option \<Rightarrow> PzlogConfig heap
     \<Rightarrow> ('t, 'c) zap_Logger \<times> PzlogConfig heap" where
  "GetLogger U Z config h =
     (let (p, h0) = (case config of None \<Rightarrow> NewDefaultConfig h | Some q \<Rightarrow> (q, h));
          h1 = h0\<lparr>configs := (configs h0)(p := setDefaultValue U (configs h0 p))\<rparr>;
          (encoder, h2) = getEncoder Z (Encoder (configs h1 p)) h1;
          writeSyncer = getWriteSyncer (configs h2 p);
          levelEnabler = getLevelEnabler U (configs h2 p);
          newCore =
            (if PrintConsole (configs h2 p) then
               NewTee [NewCore encoder writeSyncer levelEnabler,
                       NewCore encoder Lock_Stdout levelEnabler]
             else NewCore encoder writeSyncer levelEnabler)
      in (zap_New_AddCaller newCore, h2))"

definition GetLogger_flat ::
  "(string \<Rightarrow> string) \<Rightarrow> ('t, 'c) zap_lib \<Rightarrow> nat option \<Rightarrow> PzlogConfig_flat heap
     \<Rightarrow> ('t, 'c) zap_Logger \<times> PzlogConfig_flat heap" where
  "GetLogger_flat U Z config h =
     (let (p, h0) = (case config of None \<Rightarrow> NewDefaultConfig_flat h | Some q \<Rightarrow> (q, h));
          h1 = h0\<lparr>configs := (configs h0)(p := setDefaultValue_flat U (configs h0 p))\<rparr>;
          (encoder, h2) = getEncoder_flat Z h1;
          writeSyncer = GetWriteSyncer_flat (configs h2 p);
          levelEnabler = getLevelEnabler U (configs h2 p);
          (consoleEncoder, h3) = getConsoleEncoder_flat Z h2;
          newCore =
            (if PrintConsole (configs h3 p) then
               NewTee [NewCore encoder writeSyncer levelEnabler,
                       NewCore consoleEncoder Lock_Stdout levelEnabler]
             else NewCore encoder writeSyncer levelEnabler)
      in (zap_New_AddCaller newCore, h3))"

section \<open>Emission through the composed cores\<close>

text \<open>A record handed to the logger: its level, time, message and caller.\<close>

record ('t, 'c) Entry =
  ent_Level :: Level
  ent_Time :: 't
  ent_Message :: string
  ent_Caller :: 'c

datatype Field = zap_Int string int | zap_String string string | zap_Duration string int

text \<open>
  Modelled from the spec: the logging engine that delivers a record to the cores is
  zap's and not part of this repository. Sections 3 and 4.4 of the specification say
  what it does: a record is delivered to a sink iff its level is at least the sink's
  gate; the gate is evaluated before encoding; a fan-out set delivers the record to
  every member core, each encoding it with its own encoder. \<open>Enabled l lvl\<close> is the
  gate, \<open>Check\<close> collects the (encoder, sink) pairs of the cores that let the level
  pass, and \<open>emit\<close> lists, per such core and in order, the sink written, the identity
  of the encoder invoked and the bytes it produced. \<open>EncodeEntry\<close> (the encoder's
  serialisation) is a parameter. An empty list means that no encoder was invoked and
  no sink was written.
\<close>

definition Enabled :: "Level \<Rightarrow> Level \<Rightarrow> bool" where
  "Enabled l lvl = (level_int l \<le> level_int lvl)"

fun Check :: "('t, 'c) zap_Core \<Rightarrow> Level \<Rightarrow> (('t, 'c) zap_Encoder \<times> WriteSyncer) list" where
  "Check (NewCore enc ws l) lvl = (if Enabled l lvl then [(enc, ws)] else [])"
| "Check (NewTee cs) lvl = concat (map (\<lambda>c. Check c lvl) cs)"

definition emit ::
  "(('t, 'c) zap_Encoder \<Rightarrow> ('t, 'c) Entry \<Rightarrow> Field list \<Rightarrow> string)
     \<Rightarrow> ('t, 'c) zap_Logger \<Rightarrow> ('t, 'c) Entry \<Rightarrow> Field list
     \<Rightarrow> (WriteSyncer \<times> nat \<times> string) list" where
  "emit EncodeEntry lg ent fs =
     map (\<lambda>(enc, ws). (ws, enc_id enc, EncodeEntry enc ent fs))
       (Check (core lg) (ent_Level ent))"

text \<open>The encoders a core holds, in the order of its member cores.\<close>

fun core_encoders :: "('t, 'c) zap_Core \<Rightarrow> ('t, 'c) zap_Encoder list" where
  "core_encoders (NewCore enc ws l) = [enc]"
| "core_encoders (NewTee cs) = concat (map core_encoders cs)"

section \<open>The request middleware\<close>

text \<open>
  What \<^verbatim>\<open>GinLogger\<close> reads of a \<^verbatim>\<open>gin.Context\<close>: the request's path, raw query and
  method, and the values returned by \<^verbatim>\<open>c.Request.UserAgent()\<close>, \<^verbatim>\<open>c.Writer.Status()\<close>,
  \<^verbatim>\<open>c.ClientIP()\<close> and \<^verbatim>\<open>c.Errors.ByType(gin.ErrorTypePrivate).String()\<close>.
\<close>

record gin_Context =
  Request_URL_Path :: string
  Request_URL_RawQuery :: string
  Request_Method :: string
  Request_UserAgent :: string
  Writer_Status :: int
  ClientIP :: string
  Errors_Private_String :: string

text \<open>
  The state a handler runs in: the context, the monotonic clock in nanoseconds, and
  the calls made so far on the global logger \<^verbatim>\<open>zap.L()\<close>, each with its level,
  message and fields.
\<close>

record gin_State =
  ctx :: gin_Context
  clock :: int
  emitted :: "(Level \<times> string \<times> Field list) list"

text \<open>
  \<^verbatim>\<open>time.Since(start)\<close> is a \<^verbatim>\<open>time.Duration\<close>, a signed 64-bit count of
  nanoseconds: the difference of the two clock readings, saturated at the bounds of the
  type.
\<close>

definition minDuration :: int where
  "minDuration = - (2 ^ 63)"

definition maxDuration :: int where
  "maxDuration = 2 ^ 63 - 1"

definition time_Since :: "int \<Rightarrow> int \<Rightarrow> int" where
  "time_Since start now =
     (let d = now - start
      in if d < minDuration then minDuration else if maxDuration < d then maxDuration else d)"

definition zap_L_Info :: "string \<Rightarrow> Field list \<Rightarrow> gin_State \<Rightarrow> gin_State" where
  "zap_L_Info msg fs s = s\<lparr>emitted := emitted s @ [(InfoLevel, msg, fs)]\<rparr>"

text \<open>
  A call in Go returns, or panics, or does neither (it blocks for ever or ends the
  goroutine). An outcome carries the state reached: after the return, or at the moment
  of the panic.
\<close>

datatype 'a outcome = Returns 'a | Panics 'a | Never

text \<open>
  The handler that \<^verbatim>\<open>GinLogger()\<close> returns. \<open>Next\<close> is \<^verbatim>\<open>c.Next()\<close>, the rest of the
  handler chain. The handler has no \<^verbatim>\<open>defer\<close> and no \<^verbatim>\<open>recover\<close>: when \<^verbatim>\<open>c.Next()\<close>
  panics the panic leaves the handler at that statement, and when it never returns the
  handler never goes on; in both cases the statements after \<^verbatim>\<open>c.Next()\<close> do not run.
\<close>

definition GinLogger :: "(gin_State \<Rightarrow> gin_State outcome) \<Rightarrow> gin_State \<Rightarrow> gin_State outcome" where
  "GinLogger Next s0 =
     (let start = clock s0;
          path = Request_URL_Path (ctx s0);
          query = Request_URL_RawQuery (ctx s0)
      in case Next s0 of
           Panics s1 \<Rightarrow> Panics s1
         | Never \<Rightarrow> Never
         | Returns s1 \<Rightarrow>
             (let cost = time_Since start (clock s1)
              in Returns
                   (zap_L_Info path
                      [zap_Int ''status'' (Writer_Status (ctx s1)),
                       zap_String ''method'' (Request_Method (ctx s1)),
                       zap_String ''path'' path,
                       zap_String ''query'' query,
                       zap_String ''ip'' (ClientIP (ctx s1)),
                       zap_String ''user-agent'' (Request_UserAgent (ctx s1)),
                       zap_String ''errors'' (Errors_Private_String (ctx s1)),
                       zap_Duration ''cost'' cost] s1)))"

section \<open>Case-insensitive equality of ASCII names\<close>

text \<open>
  The specification's "recognized case-insensitively", written out for a name \<open>n\<close> of
  lower-case ASCII letters: \<open>s\<close> has the letters of \<open>n\<close>, each in lower or in upper
  case.
\<close>

definition upperASCII :: "char \<Rightarrow> char" where
  "upperASCII d = char_of ((of_char d :: nat) - 32)"

definition caseless :: "string \<Rightarrow> string \<Rightarrow> bool" where
  "caseless s n = list_all2 (\<lambda>c d. c = d \<or> c = upperASCII d) s n"

definition isLowerASCII :: "char \<Rightarrow> bool" where
  "isLowerASCII c = (97 \<le> (of_char c :: nat) \<and> (of_char c :: nat) \<le> 122)"

section \<open>A composed core\<close>

text \<open>
  The two shapes section 4.4 of the specification gives a composed core: the file core
  alone, or the fan-out of the file core and the core on the standard output behind the
  same gate. The file core's path is not empty.
\<close>

fun wired :: "('t, 'c) zap_Core \<Rightarrow> bool" where
  "wired (NewCore e (AddSync f) g) = (Filename f \<noteq> '''')"
| "wired (NewTee [NewCore e (AddSync f) g, NewCore e' Lock_Stdout g']) = (Filename f \<noteq> '''' \<and> g = g')"
| "wired c = False"

section \<open>Concrete inputs\<close>

definition example_config :: PzlogConfig where
  "example_config =
     \<lparr>Filename = '''', MaxSize = -1, MaxBackups = -5, MaxAge = -7,
      TimeFormat = ''15:04:05'', LogLevel = ''WaRn'', PrintConsole = True, Encoder = ''''\<rparr>"

definition example_config_flat :: PzlogConfig_flat where
  "example_config_flat =
     \<lparr>Filename = ''app.log'', MaxSize = -3, MaxBackups = -1, MaxAge = -2,
      TimeFormat = '''', LogLevel = ''verbose'', PrintConsole = True\<rparr>"

definition example_EncoderConfig :: "(nat, string) EncoderConfig" where
  "example_EncoderConfig =
     \<lparr>TimeKey = ''T'', LevelKey = ''L'', NameKey = ''N'', CallerKey = ''C'', FunctionKey = '''',
      MessageKey = ''M'', StacktraceKey = ''S'', LineEnding = [CHR 0x0A],
      EncodeLevel = (\<lambda>l. AppendString ''LEVEL''), EncodeTime = (\<lambda>t. AppendString ''TIME''),
      EncodeDuration = StringDurationEncoder, EncodeCaller = AppendString\<rparr>"

definition example_lib :: "(nat, string) zap_lib" where
  "example_lib =
     \<lparr>Format = (\<lambda>t layout. layout), CapitalString = (\<lambda>l. ''LEVEL''), TrimmedPath = (\<lambda>c. c),
      NewDevelopmentEncoderConfig = example_EncoderConfig,
      NewProductionEncoderConfig = example_EncoderConfig\<rparr>"

definition example_heap :: "PzlogConfig heap" where
  "example_heap = \<lparr>configs = (\<lambda>a. example_config), nconfigs = 1, nencoders = 0\<rparr>"

definition example_heap_flat :: "PzlogConfig_flat heap" where
  "example_heap_flat = \<lparr>configs = (\<lambda>a. example_config_flat), nconfigs = 1, nencoders = 0\<rparr>"

definition example_valid_config :: PzlogConfig where
  "example_valid_config =
     \<lparr>Filename = ''app.log'', MaxSize = 0, MaxBackups = 3, MaxAge = 7,
      TimeFormat = ''15:04:05'', LogLevel = ''ERROR'', PrintConsole = False, Encoder = ''console''\<rparr>"

definition example_valid_config_flat :: PzlogConfig_flat where
  "example_valid_config_flat =
     \<lparr>Filename = ''app.log'', MaxSize = 0, MaxBackups = 3, MaxAge = 7,
      TimeFormat = ''15:04:05'', LogLevel = ''ERROR'', PrintConsole = False\<rparr>"

definition example_valid_heap :: "PzlogConfig heap" where
  "example_valid_heap = \<lparr>configs = (\<lambda>a. example_valid_config), nconfigs = 2, nencoders = 5\<rparr>"

definition example_valid_heap_flat :: "PzlogConfig_flat heap" where
  "example_valid_heap_flat = \<lparr>configs = (\<lambda>a. example_valid_config_flat), nconfigs = 2, nencoders = 5\<rparr>"

definition example_Entry :: "(nat, string) Entry" where
  "example_Entry = \<lparr>ent_Level = ErrorLevel, ent_Time = 0, ent_Message = ''boom'', ent_Caller = ''main.go:7''\<rparr>"

definition example_EncodeEntry :: "(nat, string) zap_Encoder \<Rightarrow> (nat, string) Entry \<Rightarrow> Field list \<Rightarrow> string" where
  "example_EncodeEntry enc ent fs =
     concat (EncodeTime (enc_config enc) (ent_Time ent) []) @ '' '' @ ent_Message ent @ LineEnding (enc_config enc)"

definition example_State :: gin_State where
  "example_State =
     \<lparr>ctx = \<lparr>Request_URL_Path = ''/items'', Request_URL_RawQuery = ''id=5'', Request_Method = ''GET'',
              Request_UserAgent = ''curl/8.0'', Writer_Status = 200, ClientIP = ''10.0.0.1'',
              Errors_Private_String = ''''\<rparr>,
      clock = 1000, emitted = []\<rparr>"

definition example_Next :: "gin_State \<Rightarrow> gin_State outcome" where
  "example_Next s =
     Returns
       (s\<lparr>ctx := (ctx s)\<lparr>Request_URL_Path := ''/rewritten'', Request_URL_RawQuery := '''', Writer_Status := 404\<rparr>,
          clock := clock s + 12000000\<rparr>)"

definition example_Next_panic :: "gin_State \<Rightarrow> gin_State outcome" where
  "example_Next_panic s =
     Panics (s\<lparr>ctx := (ctx s)\<lparr>Writer_Status := 500\<rparr>, clock := clock s + 5\<rparr>)"

definition example_empty_config :: PzlogConfig where
  "example_empty_config =
     \<lparr>Filename = '''', MaxSize = -1, MaxBackups = -5, MaxAge = -7,
      TimeFormat = '''', LogLevel = ''verbose'', PrintConsole = False, Encoder = ''''\<rparr>"

definition example_empty_config_flat :: PzlogConfig_flat where
  "example_empty_config_flat =
     \<lparr>Filename = '''', MaxSize = -1, MaxBackups = -5, MaxAge = -7,
      TimeFormat = '''', LogLevel = '''', PrintConsole = False\<rparr>"

definition example_empty_heap :: "PzlogConfig heap" where
  "example_empty_heap = \<lparr>configs = (\<lambda>a. example_empty_config), nconfigs = 1, nencoders = 0\<rparr>"

definition example_empty_heap_flat :: "PzlogConfig_flat heap" where
  "example_empty_heap_flat = \<lparr>configs = (\<lambda>a. example_empty_config_flat), nconfigs = 1, nencoders = 0\<rparr>"

section \<open>Normalization: field by field\<close>

lemma ToLower_info: "ToLower U ''info'' = ''info''"
  by (simp add: ToLower_def isASCII_def lowerASCII_def isUpperASCII_def)

lemma m_info: "m ''info'' = Some InfoLevel"
  by (simp add: m_def)

lemma logTmFmt_ne: "logTmFmt \<noteq> ''''" by (simp add: logTmFmt_def)

lemma setDefaultValue_closed: "setDefaultValue U c =
   c\<lparr>Filename := (if Filename c = '''' then ''./logs/pzlog.log'' else Filename c),
     TimeFormat := (if TimeFormat c = '''' then logTmFmt else TimeFormat c),
     MaxSize := (if MaxSize c < 0 then 100 else MaxSize c),
     MaxBackups := (if MaxBackups c < 0 then 10 else MaxBackups c),
     MaxAge := (if MaxAge c < 0 then 30 else MaxAge c),
     Encoder := (if Encoder c = '''' then ''json'' else Encoder c),
     LogLevel := (if LogLevel c = '''' \<or> m (ToLower U (LogLevel c)) = None then ''info'' else LogLevel c)\<rparr>"
proof -
  define c1 where "c1 = (if Filename c = '''' then c\<lparr>Filename := ''./logs/pzlog.log''\<rparr> else c)"
  define c2 where "c2 = (if TimeFormat c1 = '''' then c1\<lparr>TimeFormat := logTmFmt\<rparr> else c1)"
  define c3 where "c3 = (if MaxSize c2 < 0 then c2\<lparr>MaxSize := 100\<rparr> else c2)"
  define c4 where "c4 = (if MaxBackups c3 < 0 then c3\<lparr>MaxBackups := 10\<rparr> else c3)"
  define c5 where "c5 = (if MaxAge c4 < 0 then c4\<lparr>MaxAge := 30\<rparr> else c4)"
  define c6 where "c6 = (if Encoder c5 = '''' then c5\<lparr>Encoder := ''json''\<rparr> else c5)"
  have r: "setDefaultValue U c =
      (if LogLevel c6 = '''' \<or> \<not> m (ToLower U (LogLevel c6)) \<noteq> None then c6\<lparr>LogLevel := ''info''\<rparr> else c6)"
    unfolding setDefaultValue_def c6_def c5_def c4_def c3_def c2_def c1_def Let_def ..
  have e1: "c1 = c\<lparr>Filename := (if Filename c = '''' then ''./logs/pzlog.log'' else Filename c)\<rparr>"
    by (simp add: c1_def)
  have e2: "c2 = c1\<lparr>TimeFormat := (if TimeFormat c = '''' then logTmFmt else TimeFormat c)\<rparr>"
    by (simp add: c2_def e1)
  have e3: "c3 = c2\<lparr>MaxSize := (if MaxSize c < 0 then 100 else MaxSize c)\<rparr>"
    by (simp add: c3_def e2 e1)
  have e4: "c4 = c3\<lparr>MaxBackups := (if MaxBackups c < 0 then 10 else MaxBackups c)\<rparr>"
    by (simp add: c4_def e3 e2 e1)
  have e5: "c5 = c4\<lparr>MaxAge := (if MaxAge c < 0 then 30 else MaxAge c)\<rparr>"
    by (simp add: c5_def e4 e3 e2 e1)
  have e6: "c6 = c5\<lparr>Encoder := (if Encoder c = '''' then ''json'' else Encoder c)\<rparr>"
    by (simp add: c6_def e5 e4 e3 e2 e1)
  have l6: "LogLevel c6 = LogLevel c"
    by (simp add: e6 e5 e4 e3 e2 e1)
  have "setDefaultValue U c =
      c6\<lparr>LogLevel := (if LogLevel c = '''' \<or> m (ToLower U (LogLevel c)) = None then ''info'' else LogLevel c)\<rparr>"
    unfolding r l6 by (simp add: l6 [symmetric])
  then show ?thesis
    by (simp only: e6 e5 e4 e3 e2 e1)
qed

lemma setDefaultValue_flat_closed: "setDefaultValue_flat U c =
   c\<lparr>Filename := (if Filename c = '''' then ''./logs/pzlog.log'' else Filename c),
     TimeFormat := (if TimeFormat c = '''' then logTmFmt else TimeFormat c),
     MaxSize := (if MaxSize c < 0 then 100 else MaxSize c),
     MaxBackups := (if MaxBackups c < 0 then 10 else MaxBackups c),
     MaxAge := (if MaxAge c < 0 then 30 else MaxAge c),
     LogLevel := (if LogLevel c = '''' \<or> m (ToLower U (LogLevel c)) = None then ''info'' else LogLevel c)\<rparr>"
proof -
  define c1 where "c1 = (if Filename c = '''' then c\<lparr>Filename := ''./logs/pzlog.log''\<rparr> else c)"
  define c2 where "c2 = (if TimeFormat c1 = '''' then c1\<lparr>TimeFormat := logTmFmt\<rparr> else c1)"
  define c3 where "c3 = (if MaxSize c2 < 0 then c2\<lparr>MaxSize := 100\<rparr> else c2)"
  define c4 where "c4 = (if MaxBackups c3 < 0 then c3\<lparr>MaxBackups := 10\<rparr> else c3)"
  define c5 where "c5 = (if MaxAge c4 < 0 then c4\<lparr>MaxAge := 30\<rparr> else c4)"
  have r: "setDefaultValue_flat U c =
      (if LogLevel c5 = '''' \<or> \<not> m (ToLower U (LogLevel c5)) \<noteq> None then c5\<lparr>LogLevel := ''info''\<rparr> else c5)"
    unfolding setDefaultValue_flat_def c5_def c4_def c3_def c2_def c1_def Let_def ..
  have e1: "c1 = c\<lparr>Filename := (if Filename c = '''' then ''./logs/pzlog.log'' else Filename c)\<rparr>"
    by (simp add: c1_def)
  have e2: "c2 = c1\<lparr>TimeFormat := (if TimeFormat c = '''' then logTmFmt else TimeFormat c)\<rparr>"
    by (simp add: c2_def e1)
  have e3: "c3 = c2\<lparr>MaxSize := (if MaxSize c < 0 then 100 else MaxSize c)\<rparr>"
    by (simp add: c3_def e2 e1)
  have e4: "c4 = c3\<lparr>MaxBackups := (if MaxBackups c < 0 then 10 else MaxBackups c)\<rparr>"
    by (simp add: c4_def e3 e2 e1)
  have e5: "c5 = c4\<lparr>MaxAge := (if MaxAge c < 0 then 30 else MaxAge c)\<rparr>"
    by (simp add: c5_def e4 e3 e2 e1)
  have l5: "LogLevel c5 = LogLevel c"
    by (simp add: e5 e4 e3 e2 e1)
  have "setDefaultValue_flat U c =
      c5\<lparr>LogLevel := (if LogLevel c = '''' \<or> m (ToLower U (LogLevel c)) = None then ''info'' else LogLevel c)\<rparr>"
    unfolding r l5 by (simp add: l5 [symmetric])
  then show ?thesis
    by (simp only: e5 e4 e3 e2 e1)
qed

lemma m_dom: "dom m = {''debug'', ''info'', ''warn'', ''error'', ''dpanic'', ''panic'', ''fatal''}"
  by (auto simp add: m_def dom_def split: if_splits)

lemma getLevelEnabler_m:
  "getLevelEnabler U c = (case m (ToLower U (LogLevel c)) of Some L \<Rightarrow> L | None \<Rightarrow> InfoLevel)"
  by (simp add: getLevelEnabler_def m_def Let_def)

lemma caseless_char:
  assumes "isLowerASCII d" and "c = d \<or> c = upperASCII d"
  shows "isASCII c \<and> lowerASCII c = d"
  using assms
  by (auto simp add: isLowerASCII_def isASCII_def lowerASCII_def isUpperASCII_def upperASCII_def)

lemma caseless_map:
  "list_all2 (\<lambda>c d. c = d \<or> c = upperASCII d) s n \<Longrightarrow> list_all isLowerASCII n \<Longrightarrow>
     list_all isASCII s \<and> map lowerASCII s = n"
proof (induction s n rule: list_all2_induct)
  case Nil
  then show ?case by simp
next
  case (Cons c s d n)
  then show ?case using caseless_char [of d c] by simp
qed

lemma m_names_lower: "m n = Some L \<Longrightarrow> list_all isLowerASCII n"
  by (auto simp add: m_def isLowerASCII_def split: if_splits)

lemma caseless_ToLower: "m n = Some L \<Longrightarrow> caseless s n \<Longrightarrow> ToLower U s = n"
  using caseless_map [of s n] m_names_lower [of n L]
  by (simp add: caseless_def ToLower_def)

lemma lower_caseless_char: "c = lowerASCII c \<or> c = upperASCII (lowerASCII c)"
  by (auto simp add: lowerASCII_def isUpperASCII_def upperASCII_def)

lemma map_lower_caseless: "caseless s (map lowerASCII s)"
  unfolding caseless_def
  by (induction s) (simp_all add: lower_caseless_char)

lemma ASCII_caseless: "list_all isASCII s \<Longrightarrow> caseless s (ToLower U s)"
  by (simp add: ToLower_def map_lower_caseless)

lemma m_empty: "m (ToLower U '''') = None"
  by (simp add: ToLower_def m_def)

lemma effective_level:
  "getLevelEnabler U (setDefaultValue U c) =
     (case m (ToLower U (LogLevel c)) of Some L \<Rightarrow> L | None \<Rightarrow> InfoLevel)"
  by (simp add: getLevelEnabler_m setDefaultValue_closed ToLower_info m_info m_empty split: option.splits)

lemma effective_level_flat:
  "getLevelEnabler U (setDefaultValue_flat U c) =
     (case m (ToLower U (LogLevel c)) of Some L \<Rightarrow> L | None \<Rightarrow> InfoLevel)"
  by (simp add: getLevelEnabler_m setDefaultValue_flat_closed ToLower_info m_info m_empty split: option.splits)

text \<open>
  C5. Exactly the seven names debug, info, warn, error, dpanic, panic, fatal are keys of
  the level table. A level name that equals one of them up to the case of its letters
  (and, more generally, any name that \<^verbatim>\<open>strings.ToLower\<close> maps to one of them) makes
  that name's level the effective minimum level of both texts. An empty level name, and
  any name that \<^verbatim>\<open>strings.ToLower\<close> does not map to one of the seven, is replaced by
  \<^verbatim>\<open>info\<close> and the effective minimum level is info; for an ASCII name this is any
  name that is not one of the seven up to case.
\<close>

theorem level_names_recognized:
  "dom m = {''debug'', ''info'', ''warn'', ''error'', ''dpanic'', ''panic'', ''fatal''}
   \<and> (\<forall>n L s. m n = Some L \<and> caseless s n \<longrightarrow>
         getLevelEnabler U (setDefaultValue U (c\<lparr>LogLevel := s\<rparr>)) = L
         \<and> getLevelEnabler U (setDefaultValue_flat U (d\<lparr>LogLevel := s\<rparr>)) = L)
   \<and> (\<forall>s L. m (ToLower U s) = Some L \<longrightarrow>
         getLevelEnabler U (setDefaultValue U (c\<lparr>LogLevel := s\<rparr>)) = L
         \<and> getLevelEnabler U (setDefaultValue_flat U (d\<lparr>LogLevel := s\<rparr>)) = L)
   \<and> (\<forall>s. s = '''' \<or> m (ToLower U s) = None \<longrightarrow>
         LogLevel (setDefaultValue U (c\<lparr>LogLevel := s\<rparr>)) = ''info''
         \<and> LogLevel (setDefaultValue_flat U (d\<lparr>LogLevel := s\<rparr>)) = ''info''
         \<and> getLevelEnabler U (setDefaultValue U (c\<lparr>LogLevel := s\<rparr>)) = InfoLevel
         \<and> getLevelEnabler U (setDefaultValue_flat U (d\<lparr>LogLevel := s\<rparr>)) = InfoLevel)
   \<and> (\<forall>s. list_all isASCII s \<and> (\<forall>n L. m n = Some L \<longrightarrow> \<not> caseless s n) \<longrightarrow>
         getLevelEnabler U (setDefaultValue U (c\<lparr>LogLevel := s\<rparr>)) = InfoLevel
         \<and> getLevelEnabler U (setDefaultValue_flat U (d\<lparr>LogLevel := s\<rparr>)) = InfoLevel)"
proof (intro conjI allI impI)
  show "dom m = {''debug'', ''info'', ''warn'', ''error'', ''dpanic'', ''panic'', ''fatal''}"
    by (rule m_dom)
next
  fix n L s assume a: "m n = Some L \<and> caseless s n"
  then have "ToLower U s = n" using caseless_ToLower by blast
  with a show "getLevelEnabler U (setDefaultValue U (c\<lparr>LogLevel := s\<rparr>)) = L"
    and "getLevelEnabler U (setDefaultValue_flat U (d\<lparr>LogLevel := s\<rparr>)) = L"
    by (simp_all add: effective_level effective_level_flat)
next
  fix s L assume "m (ToLower U s) = Some L"
  then show "getLevelEnabler U (setDefaultValue U (c\<lparr>LogLevel := s\<rparr>)) = L"
    and "getLevelEnabler U (setDefaultValue_flat U (d\<lparr>LogLevel := s\<rparr>)) = L"
    by (simp_all add: effective_level effective_level_flat)
next
  fix s assume "s = '''' \<or> m (ToLower U s) = None"
  then have n: "m (ToLower U s) = None" by (auto simp add: m_empty)
  then show "getLevelEnabler U (setDefaultValue U (c\<lparr>LogLevel := s\<rparr>)) = InfoLevel"
    and "getLevelEnabler U (setDefaultValue_flat U (d\<lparr>LogLevel := s\<rparr>)) = InfoLevel"
    by (simp_all add: effective_level effective_level_flat)
  from n show "LogLevel (setDefaultValue U (c\<lparr>LogLevel := s\<rparr>)) = ''info''"
    and "LogLevel (setDefaultValue_flat U (d\<lparr>LogLevel := s\<rparr>)) = ''info''"
    by (simp_all add: setDefaultValue_closed setDefaultValue_flat_closed)
next
  fix s assume a: "list_all isASCII s \<and> (\<forall>n L. m n = Some L \<longrightarrow> \<not> caseless s n)"
  then have "caseless s (ToLower U s)" using ASCII_caseless by blast
  with a have n: "m (ToLower U s) = None" by (cases "m (ToLower U s)") auto
  then show "getLevelEnabler U (setDefaultValue U (c\<lparr>LogLevel := s\<rparr>)) = InfoLevel"
    and "getLevelEnabler U (setDefaultValue_flat U (d\<lparr>LogLevel := s\<rparr>)) = InfoLevel"
    by (simp_all add: effective_level effective_level_flat)
qed

lemma caseless_WaRn: "caseless ''WaRn'' ''warn''"
  by code_simp

lemma ToLower_FATAL: "ToLower id ''FATAL'' = ''fatal''"
  by code_simp

lemma ToLower_verbose: "ToLower id ''verbose'' = ''verbose''"
  by code_simp

lemma not_caseless_verbose: "m n = Some L \<Longrightarrow> \<not> caseless ''verbose'' n"
proof -
  assume "m n = Some L"
  then have "n \<in> dom m" by blast
  then have "length n \<noteq> 7 \<or> n = ''verbose''" unfolding m_dom by auto
  moreover have "m ''verbose'' = None" by (simp add: m_def)
  ultimately have "length n \<noteq> length ''verbose''" using \<open>m n = Some L\<close> by auto
  then show ?thesis unfolding caseless_def using list_all2_lengthD by fastforce
qed

theorem level_names_recognized_witness:
  "getLevelEnabler id (setDefaultValue id (example_config\<lparr>LogLevel := ''WaRn''\<rparr>)) = WarnLevel
   \<and> getLevelEnabler id (setDefaultValue_flat id (example_config_flat\<lparr>LogLevel := ''FATAL''\<rparr>)) = FatalLevel
   \<and> getLevelEnabler id (setDefaultValue id (example_config\<lparr>LogLevel := ''''\<rparr>)) = InfoLevel
   \<and> LogLevel (setDefaultValue_flat id (example_config_flat\<lparr>LogLevel := ''verbose''\<rparr>)) = ''info''
   \<and> getLevelEnabler id (setDefaultValue_flat id (example_config_flat\<lparr>LogLevel := ''verbose''\<rparr>)) = InfoLevel"
proof -
  note t = level_names_recognized [of id example_config example_config_flat]
  note t2 = t [THEN conjunct2, THEN conjunct1, rule_format]
  note t3 = t [THEN conjunct2, THEN conjunct2, THEN conjunct1, rule_format]
  note t4 = t [THEN conjunct2, THEN conjunct2, THEN conjunct2, THEN conjunct1, rule_format]
  note t5 = t [THEN conjunct2, THEN conjunct2, THEN conjunct2, THEN conjunct2, rule_format]
  have w: "m ''warn'' = Some WarnLevel \<and> caseless ''WaRn'' ''warn''"
    by (simp add: m_def caseless_WaRn)
  have f: "m (ToLower id ''FATAL'') = Some FatalLevel"
    by (simp add: ToLower_FATAL m_def)
  have e: "('''' :: string) = '''' \<or> m (ToLower id '''') = None" by simp
  have v: "''verbose'' = '''' \<or> m (ToLower id ''verbose'') = None"
    by (simp add: ToLower_verbose m_def)
  have a: "list_all isASCII ''verbose'' \<and> (\<forall>n L. m n = Some L \<longrightarrow> \<not> caseless ''verbose'' n)"
    using not_caseless_verbose by (simp add: isASCII_def)
  show ?thesis
    using t2 [OF w, THEN conjunct1] t3 [OF f, THEN conjunct2] t4 [OF e] t4 [OF v] t5 [OF a, THEN conjunct2]
    by blast
qed

lemma sdv_PrintConsole: "PrintConsole (setDefaultValue U c) = PrintConsole c"
  by (simp add: setDefaultValue_closed)

lemma sdv_flat_PrintConsole: "PrintConsole (setDefaultValue_flat U c) = PrintConsole c"
  by (simp add: setDefaultValue_flat_closed)

lemma sdv_Filename: "Filename (setDefaultValue U c) \<noteq> ''''"
  by (simp add: setDefaultValue_closed)

lemma sdv_flat_Filename: "Filename (setDefaultValue_flat U c) \<noteq> ''''"
  by (simp add: setDefaultValue_flat_closed)

lemma getEncoder_snd: "snd (getEncoder Z types h) = h\<lparr>nencoders := nencoders h + 1\<rparr>"
  by (simp add: getEncoder_def NewConsoleEncoder_def NewJSONEncoder_def)

lemma getEncoder_id: "enc_id (fst (getEncoder Z types h)) = nencoders h"
  by (simp add: getEncoder_def NewConsoleEncoder_def NewJSONEncoder_def)

lemma getEncoder_kind:
  "enc_kind (fst (getEncoder Z types h)) = (if types = ''console'' then ConsoleEncoder else JSONEncoder)"
  by (simp add: getEncoder_def NewConsoleEncoder_def NewJSONEncoder_def)

lemma getEncoder_EncodeTime: "EncodeTime (enc_config (fst (getEncoder Z types h))) = cEncodeTime Z"
  by (simp add: getEncoder_def NewConsoleEncoder_def NewJSONEncoder_def)

lemma getEncoder_configs: "fst (getEncoder Z types (h\<lparr>configs := f\<rparr>)) = fst (getEncoder Z types h)"
  by (simp add: getEncoder_def NewConsoleEncoder_def NewJSONEncoder_def)

lemma getEncoder_flat_snd: "snd (getEncoder_flat Z h) = h\<lparr>nencoders := nencoders h + 1\<rparr>"
  by (simp add: getEncoder_flat_def NewConsoleEncoder_def)

lemma getEncoder_flat_id: "enc_id (fst (getEncoder_flat Z h)) = nencoders h"
  by (simp add: getEncoder_flat_def NewConsoleEncoder_def)

lemma getEncoder_flat_configs: "fst (getEncoder_flat Z (h\<lparr>configs := f\<rparr>)) = fst (getEncoder_flat Z h)"
  by (simp add: getEncoder_flat_def NewConsoleEncoder_def)

lemma getConsoleEncoder_flat_eq:
  "getConsoleEncoder_flat Z h =
     (\<lparr>enc_id = nencoders h, enc_kind = ConsoleEncoder, enc_config = NewDevelopmentEncoderConfig Z\<rparr>,
      h\<lparr>nencoders := nencoders h + 1\<rparr>)"
  by (simp add: getConsoleEncoder_flat_def NewConsoleEncoder_def)

lemma GetLogger_Some:
  "GetLogger U Z (Some p) h =
     (let cfg = setDefaultValue U (configs h p);
          encoder = fst (getEncoder Z (Encoder cfg) h);
          writeSyncer = getWriteSyncer cfg;
          levelEnabler = getLevelEnabler U cfg
      in (zap_New_AddCaller
            (if PrintConsole (configs h p) then
               NewTee [NewCore encoder writeSyncer levelEnabler,
                       NewCore encoder Lock_Stdout levelEnabler]
             else NewCore encoder writeSyncer levelEnabler),
          h\<lparr>configs := (configs h)(p := cfg), nencoders := nencoders h + 1\<rparr>))"
  by (simp add: GetLogger_def Let_def split_beta getEncoder_snd getEncoder_configs sdv_PrintConsole)

lemma GetLogger_None:
  "GetLogger U Z None h =
     GetLogger U Z (Some (nconfigs h))
       (h\<lparr>configs := (configs h)(nconfigs h := DefaultConfig), nconfigs := nconfigs h + 1\<rparr>)"
  by (simp add: GetLogger_def NewDefaultConfig_def)

lemma GetLogger_flat_Some:
  "GetLogger_flat U Z (Some p) h =
     (let cfg = setDefaultValue_flat U (configs h p);
          encoder = fst (getEncoder_flat Z h);
          writeSyncer = GetWriteSyncer_flat cfg;
          levelEnabler = getLevelEnabler U cfg;
          consoleEncoder = \<lparr>enc_id = nencoders h + 1, enc_kind = ConsoleEncoder,
                             enc_config = NewDevelopmentEncoderConfig Z\<rparr>
      in (zap_New_AddCaller
            (if PrintConsole (configs h p) then
               NewTee [NewCore encoder writeSyncer levelEnabler,
                       NewCore consoleEncoder Lock_Stdout levelEnabler]
             else NewCore encoder writeSyncer levelEnabler),
          h\<lparr>configs := (configs h)(p := cfg), nencoders := nencoders h + 2\<rparr>))"
  by (simp add: GetLogger_flat_def Let_def split_beta getEncoder_flat_snd getEncoder_flat_configs
      getConsoleEncoder_flat_eq sdv_flat_PrintConsole)

lemma GetLogger_flat_None:
  "GetLogger_flat U Z None h =
     GetLogger_flat U Z (Some (nconfigs h))
       (h\<lparr>configs := (configs h)(nconfigs h := DefaultConfig_flat), nconfigs := nconfigs h + 1\<rparr>)"
  by (simp add: GetLogger_flat_def NewDefaultConfig_flat_def)

section \<open>Normalization: idempotence and the rotation defaults\<close>

text \<open>
  C7. Normalization is idempotent in both texts: normalizing a normalized configuration
  gives back the same configuration, field for field.
\<close>

theorem normalization_idempotent:
  "setDefaultValue U (setDefaultValue U c) = setDefaultValue U c
   \<and> setDefaultValue_flat U (setDefaultValue_flat U d) = setDefaultValue_flat U d"
proof
  show "setDefaultValue U (setDefaultValue U c) = setDefaultValue U c"
    by (rule PzlogConfig.equality)
      (auto simp add: setDefaultValue_closed logTmFmt_ne ToLower_info m_info)
  show "setDefaultValue_flat U (setDefaultValue_flat U d) = setDefaultValue_flat U d"
    by (rule PzlogConfig_flat.equality)
      (auto simp add: setDefaultValue_flat_closed logTmFmt_ne ToLower_info m_info)
qed

theorem normalization_idempotent_witness:
  "setDefaultValue id (setDefaultValue id example_config) = setDefaultValue id example_config
   \<and> setDefaultValue_flat id (setDefaultValue_flat id example_config_flat) =
       setDefaultValue_flat id example_config_flat"
  by (rule normalization_idempotent)

text \<open>
  C6. In both texts normalization replaces a negative MaxSize by 100, a negative
  MaxBackups by 10 and a negative MaxAge by 30, and leaves a zero in any of the three
  fields as it is.
\<close>

theorem rotation_defaults:
  "(MaxSize c < 0 \<longrightarrow> MaxSize (setDefaultValue U c) = 100)
   \<and> (MaxBackups c < 0 \<longrightarrow> MaxBackups (setDefaultValue U c) = 10)
   \<and> (MaxAge c < 0 \<longrightarrow> MaxAge (setDefaultValue U c) = 30)
   \<and> (MaxSize c = 0 \<longrightarrow> MaxSize (setDefaultValue U c) = 0)
   \<and> (MaxBackups c = 0 \<longrightarrow> MaxBackups (setDefaultValue U c) = 0)
   \<and> (MaxAge c = 0 \<longrightarrow> MaxAge (setDefaultValue U c) = 0)
   \<and> (MaxSize d < 0 \<longrightarrow> MaxSize (setDefaultValue_flat U d) = 100)
   \<and> (MaxBackups d < 0 \<longrightarrow> MaxBackups (setDefaultValue_flat U d) = 10)
   \<and> (MaxAge d < 0 \<longrightarrow> MaxAge (setDefaultValue_flat U d) = 30)
   \<and> (MaxSize d = 0 \<longrightarrow> MaxSize (setDefaultValue_flat U d) = 0)
   \<and> (MaxBackups d = 0 \<longrightarrow> MaxBackups (setDefaultValue_flat U d) = 0)
   \<and> (MaxAge d = 0 \<longrightarrow> MaxAge (setDefaultValue_flat U d) = 0)"
  by (simp add: setDefaultValue_closed setDefaultValue_flat_closed)

theorem rotation_defaults_witness:
  "MaxSize (setDefaultValue id example_config) = 100
   \<and> MaxBackups (setDefaultValue id example_config) = 10
   \<and> MaxAge (setDefaultValue id example_config) = 30
   \<and> MaxSize (setDefaultValue id (example_config\<lparr>MaxSize := 0, MaxBackups := 0, MaxAge := 0\<rparr>)) = 0
   \<and> MaxBackups (setDefaultValue id (example_config\<lparr>MaxSize := 0, MaxBackups := 0, MaxAge := 0\<rparr>)) = 0
   \<and> MaxAge (setDefaultValue id (example_config\<lparr>MaxSize := 0, MaxBackups := 0, MaxAge := 0\<rparr>)) = 0
   \<and> MaxSize (setDefaultValue_flat id example_config_flat) = 100
   \<and> MaxBackups (setDefaultValue_flat id example_config_flat) = 10
   \<and> MaxAge (setDefaultValue_flat id example_config_flat) = 30
   \<and> MaxSize (setDefaultValue_flat id (example_config_flat\<lparr>MaxSize := 0, MaxBackups := 0, MaxAge := 0\<rparr>)) = 0
   \<and> MaxBackups (setDefaultValue_flat id (example_config_flat\<lparr>MaxSize := 0, MaxBackups := 0, MaxAge := 0\<rparr>)) = 0
   \<and> MaxAge (setDefaultValue_flat id (example_config_flat\<lparr>MaxSize := 0, MaxBackups := 0, MaxAge := 0\<rparr>)) = 0"
  using rotation_defaults [of example_config id example_config_flat]
    rotation_defaults [of "example_config\<lparr>MaxSize := 0, MaxBackups := 0, MaxAge := 0\<rparr>" id
      "example_config_flat\<lparr>MaxSize := 0, MaxBackups := 0, MaxAge := 0\<rparr>"]
  by (simp add: example_config_def example_config_flat_def)

section \<open>Logger construction\<close>

lemma ToLower_ERROR: "ToLower id ''ERROR'' = ''error''"
  by code_simp

lemma effective_WaRn: "getLevelEnabler id (setDefaultValue id example_config) = WarnLevel"
proof -
  have "ToLower id ''WaRn'' = ''warn''" by code_simp
  then show ?thesis by (simp add: effective_level example_config_def m_def)
qed

lemma effective_verbose: "getLevelEnabler id (setDefaultValue_flat id example_config_flat) = InfoLevel"
  by (simp add: effective_level_flat example_config_flat_def ToLower_verbose m_def)

text \<open>
  C10. \<^verbatim>\<open>GetLogger\<close> on a non-nil pointer \<open>p\<close> leaves at \<open>p\<close> the normalized form of
  the configuration the caller stored there, changes no other object and allocates
  none. A field that was valid before the call (a non-empty file name, time format or
  format name, a rotation parameter that is not negative, a non-empty recognized level
  name, and the console flag) has the value it had. A field that was not valid holds
  its default after the call: an empty file name becomes \<^verbatim>\<open>./logs/pzlog.log\<close>, an
  empty time format \<^verbatim>\<open>2006-01-02 15:04:05\<close>, a negative MaxSize, MaxBackups or MaxAge
  100, 10 or 30, an empty format name \<^verbatim>\<open>json\<close>, an empty or unrecognized level name
  \<^verbatim>\<open>info\<close>. This holds in both texts.
\<close>

theorem GetLogger_normalizes_in_place:
  "configs (snd (GetLogger U Z (Some p) h)) p = setDefaultValue U (configs h p)
   \<and> (\<forall>q. q \<noteq> p \<longrightarrow> configs (snd (GetLogger U Z (Some p) h)) q = configs h q)
   \<and> nconfigs (snd (GetLogger U Z (Some p) h)) = nconfigs h
   \<and> (Filename (configs h p) \<noteq> '''' \<longrightarrow>
        Filename (configs (snd (GetLogger U Z (Some p) h)) p) = Filename (configs h p))
   \<and> (TimeFormat (configs h p) \<noteq> '''' \<longrightarrow>
        TimeFormat (configs (snd (GetLogger U Z (Some p) h)) p) = TimeFormat (configs h p))
   \<and> (0 \<le> MaxSize (configs h p) \<longrightarrow>
        MaxSize (configs (snd (GetLogger U Z (Some p) h)) p) = MaxSize (configs h p))
   \<and> (0 \<le> MaxBackups (configs h p) \<longrightarrow>
        MaxBackups (configs (snd (GetLogger U Z (Some p) h)) p) = MaxBackups (configs h p))
   \<and> (0 \<le> MaxAge (configs h p) \<longrightarrow>
        MaxAge (configs (snd (GetLogger U Z (Some p) h)) p) = MaxAge (configs h p))
   \<and> (Encoder (configs h p) \<noteq> '''' \<longrightarrow>
        Encoder (configs (snd (GetLogger U Z (Some p) h)) p) = Encoder (configs h p))
   \<and> (LogLevel (configs h p) \<noteq> '''' \<and> m (ToLower U (LogLevel (configs h p))) \<noteq> None \<longrightarrow>
        LogLevel (configs (snd (GetLogger U Z (Some p) h)) p) = LogLevel (configs h p))
   \<and> PrintConsole (configs (snd (GetLogger U Z (Some p) h)) p) = PrintConsole (configs h p)
   \<and> configs (snd (GetLogger_flat U Z (Some p) hf)) p = setDefaultValue_flat U (configs hf p)
   \<and> (\<forall>q. q \<noteq> p \<longrightarrow> configs (snd (GetLogger_flat U Z (Some p) hf)) q = configs hf q)
   \<and> nconfigs (snd (GetLogger_flat U Z (Some p) hf)) = nconfigs hf
   \<and> (Filename (configs hf p) \<noteq> '''' \<longrightarrow>
        Filename (configs (snd (GetLogger_flat U Z (Some p) hf)) p) = Filename (configs hf p))
   \<and> (TimeFormat (configs hf p) \<noteq> '''' \<longrightarrow>
        TimeFormat (configs (snd (GetLogger_flat U Z (Some p) hf)) p) = TimeFormat (configs hf p))
   \<and> (0 \<le> MaxSize (configs hf p) \<longrightarrow>
        MaxSize (configs (snd (GetLogger_flat U Z (Some p) hf)) p) = MaxSize (configs hf p))
   \<and> (0 \<le> MaxBackups (configs hf p) \<longrightarrow>
        MaxBackups (configs (snd (GetLogger_flat U Z (Some p) hf)) p) = MaxBackups (configs hf p))
   \<and> (0 \<le> MaxAge (configs hf p) \<longrightarrow>
        MaxAge (configs (snd (GetLogger_flat U Z (Some p) hf)) p) = MaxAge (configs hf p))
   \<and> (LogLevel (configs hf p) \<noteq> '''' \<and> m (ToLower U (LogLevel (configs hf p))) \<noteq> None \<longrightarrow>
        LogLevel (configs (snd (GetLogger_flat U Z (Some p) hf)) p) = LogLevel (configs hf p))
   \<and> PrintConsole (configs (snd (GetLogger_flat U Z (Some p) hf)) p) = PrintConsole (configs hf p)
   \<and> (Filename (configs h p) = '''' \<longrightarrow>
        Filename (configs (snd (GetLogger U Z (Some p) h)) p) = ''./logs/pzlog.log'')
   \<and> (TimeFormat (configs h p) = '''' \<longrightarrow>
        TimeFormat (configs (snd (GetLogger U Z (Some p) h)) p) = ''2006-01-02 15:04:05'')
   \<and> (MaxSize (configs h p) < 0 \<longrightarrow>
        MaxSize (configs (snd (GetLogger U Z (Some p) h)) p) = 100)
   \<and> (MaxBackups (configs h p) < 0 \<longrightarrow>
        MaxBackups (configs (snd (GetLogger U Z (Some p) h)) p) = 10)
   \<and> (MaxAge (configs h p) < 0 \<longrightarrow>
        MaxAge (configs (snd (GetLogger U Z (Some p) h)) p) = 30)
   \<and> (Encoder (configs h p) = '''' \<longrightarrow>
        Encoder (configs (snd (GetLogger U Z (Some p) h)) p) = ''json'')
   \<and> (LogLevel (configs h p) = '''' \<or> m (ToLower U (LogLevel (configs h p))) = None \<longrightarrow>
        LogLevel (configs (snd (GetLogger U Z (Some p) h)) p) = ''info'')
   \<and> (Filename (configs hf p) = '''' \<longrightarrow>
        Filename (configs (snd (GetLogger_flat U Z (Some p) hf)) p) = ''./logs/pzlog.log'')
   \<and> (TimeFormat (configs hf p) = '''' \<longrightarrow>
        TimeFormat (configs (snd (GetLogger_flat U Z (Some p) hf)) p) = ''2006-01-02 15:04:05'')
   \<and> (MaxSize (configs hf p) < 0 \<longrightarrow>
        MaxSize (configs (snd (GetLogger_flat U Z (Some p) hf)) p) = 100)
   \<and> (MaxBackups (configs hf p) < 0 \<longrightarrow>
        MaxBackups (configs (snd (GetLogger_flat U Z (Some p) hf)) p) = 10)
   \<and> (MaxAge (configs hf p) < 0 \<longrightarrow>
        MaxAge (configs (snd (GetLogger_flat U Z (Some p) hf)) p) = 30)
   \<and> (LogLevel (configs hf p) = '''' \<or> m (ToLower U (LogLevel (configs hf p))) = None \<longrightarrow>
        LogLevel (configs (snd (GetLogger_flat U Z (Some p) hf)) p) = ''info'')"
proof -
  have a: "configs (snd (GetLogger U Z (Some p) h)) = (configs h)(p := setDefaultValue U (configs h p))"
    and b: "nconfigs (snd (GetLogger U Z (Some p) h)) = nconfigs h"
    by (simp_all add: GetLogger_Some Let_def)
  have af: "configs (snd (GetLogger_flat U Z (Some p) hf)) = (configs hf)(p := setDefaultValue_flat U (configs hf p))"
    and bf: "nconfigs (snd (GetLogger_flat U Z (Some p) hf)) = nconfigs hf"
    by (simp_all add: GetLogger_flat_Some Let_def)
  show ?thesis
    unfolding a b af bf
    by (auto simp add: setDefaultValue_closed setDefaultValue_flat_closed logTmFmt_def)
qed

theorem GetLogger_normalizes_in_place_witness:
  "configs (snd (GetLogger id example_lib (Some 0) example_valid_heap)) 1 = example_valid_config
   \<and> Filename (configs (snd (GetLogger id example_lib (Some 0) example_valid_heap)) 0) = ''app.log''
   \<and> TimeFormat (configs (snd (GetLogger id example_lib (Some 0) example_valid_heap)) 0) = ''15:04:05''
   \<and> MaxSize (configs (snd (GetLogger id example_lib (Some 0) example_valid_heap)) 0) = 0
   \<and> MaxBackups (configs (snd (GetLogger id example_lib (Some 0) example_valid_heap)) 0) = 3
   \<and> MaxAge (configs (snd (GetLogger id example_lib (Some 0) example_valid_heap)) 0) = 7
   \<and> Encoder (configs (snd (GetLogger id example_lib (Some 0) example_valid_heap)) 0) = ''console''
   \<and> LogLevel (configs (snd (GetLogger id example_lib (Some 0) example_valid_heap)) 0) = ''ERROR''
   \<and> configs (snd (GetLogger_flat id example_lib (Some 0) example_valid_heap_flat)) 1 = example_valid_config_flat
   \<and> Filename (configs (snd (GetLogger_flat id example_lib (Some 0) example_valid_heap_flat)) 0) = ''app.log''
   \<and> TimeFormat (configs (snd (GetLogger_flat id example_lib (Some 0) example_valid_heap_flat)) 0) = ''15:04:05''
   \<and> MaxSize (configs (snd (GetLogger_flat id example_lib (Some 0) example_valid_heap_flat)) 0) = 0
   \<and> MaxBackups (configs (snd (GetLogger_flat id example_lib (Some 0) example_valid_heap_flat)) 0) = 3
   \<and> MaxAge (configs (snd (GetLogger_flat id example_lib (Some 0) example_valid_heap_flat)) 0) = 7
   \<and> LogLevel (configs (snd (GetLogger_flat id example_lib (Some 0) example_valid_heap_flat)) 0) = ''ERROR''
   \<and> Filename (configs (snd (GetLogger id example_lib (Some 0) example_empty_heap)) 0) = ''./logs/pzlog.log''
   \<and> TimeFormat (configs (snd (GetLogger id example_lib (Some 0) example_empty_heap)) 0) = ''2006-01-02 15:04:05''
   \<and> MaxSize (configs (snd (GetLogger id example_lib (Some 0) example_empty_heap)) 0) = 100
   \<and> MaxBackups (configs (snd (GetLogger id example_lib (Some 0) example_empty_heap)) 0) = 10
   \<and> MaxAge (configs (snd (GetLogger id example_lib (Some 0) example_empty_heap)) 0) = 30
   \<and> Encoder (configs (snd (GetLogger id example_lib (Some 0) example_empty_heap)) 0) = ''json''
   \<and> LogLevel (configs (snd (GetLogger id example_lib (Some 0) example_empty_heap)) 0) = ''info''
   \<and> Filename (configs (snd (GetLogger_flat id example_lib (Some 0) example_empty_heap_flat)) 0) = ''./logs/pzlog.log''
   \<and> TimeFormat (configs (snd (GetLogger_flat id example_lib (Some 0) example_empty_heap_flat)) 0) = ''2006-01-02 15:04:05''
   \<and> MaxSize (configs (snd (GetLogger_flat id example_lib (Some 0) example_empty_heap_flat)) 0) = 100
   \<and> MaxBackups (configs (snd (GetLogger_flat id example_lib (Some 0) example_empty_heap_flat)) 0) = 10
   \<and> MaxAge (configs (snd (GetLogger_flat id example_lib (Some 0) example_empty_heap_flat)) 0) = 30
   \<and> LogLevel (configs (snd (GetLogger_flat id example_lib (Some 0) example_empty_heap_flat)) 0) = ''info''"
proof -
  note r0 = GetLogger_normalizes_in_place [of id example_lib 0 example_valid_heap example_valid_heap_flat]
  note r1 = r0 [THEN conjunct2]
  note r2 = r1 [THEN conjunct2]
  note r3 = r2 [THEN conjunct2]
  note r4 = r3 [THEN conjunct2]
  note r5 = r4 [THEN conjunct2]
  note r6 = r5 [THEN conjunct2]
  note r7 = r6 [THEN conjunct2]
  note r8 = r7 [THEN conjunct2]
  note r9 = r8 [THEN conjunct2]
  note r10 = r9 [THEN conjunct2]
  note r11 = r10 [THEN conjunct2]
  note r12 = r11 [THEN conjunct2]
  note r13 = r12 [THEN conjunct2]
  note r14 = r13 [THEN conjunct2]
  note r15 = r14 [THEN conjunct2]
  note r16 = r15 [THEN conjunct2]
  note r17 = r16 [THEN conjunct2]
  note r18 = r17 [THEN conjunct2]
  note r19 = r18 [THEN conjunct2]
  note e0 = GetLogger_normalizes_in_place [of id example_lib 0 example_empty_heap example_empty_heap_flat]
  note e1 = e0 [THEN conjunct2]
  note e2 = e1 [THEN conjunct2]
  note e3 = e2 [THEN conjunct2]
  note e4 = e3 [THEN conjunct2]
  note e5 = e4 [THEN conjunct2]
  note e6 = e5 [THEN conjunct2]
  note e7 = e6 [THEN conjunct2]
  note e8 = e7 [THEN conjunct2]
  note e9 = e8 [THEN conjunct2]
  note e10 = e9 [THEN conjunct2]
  note e11 = e10 [THEN conjunct2]
  note e12 = e11 [THEN conjunct2]
  note e13 = e12 [THEN conjunct2]
  note e14 = e13 [THEN conjunct2]
  note e15 = e14 [THEN conjunct2]
  note e16 = e15 [THEN conjunct2]
  note e17 = e16 [THEN conjunct2]
  note e18 = e17 [THEN conjunct2]
  note e19 = e18 [THEN conjunct2]
  note e20 = e19 [THEN conjunct2]
  note e21 = e20 [THEN conjunct2]
  note e22 = e21 [THEN conjunct2]
  note e23 = e22 [THEN conjunct2]
  note e24 = e23 [THEN conjunct2]
  note e25 = e24 [THEN conjunct2]
  note e26 = e25 [THEN conjunct2]
  note e27 = e26 [THEN conjunct2]
  note e28 = e27 [THEN conjunct2]
  note e29 = e28 [THEN conjunct2]
  note e30 = e29 [THEN conjunct2]
  note e31 = e30 [THEN conjunct2]
  note e32 = e31 [THEN conjunct2]
  note e33 = e32 [THEN conjunct2]
  have l: "m (ToLower id ''ERROR'') \<noteq> None" by (simp add: ToLower_ERROR m_def)
  have c: "configs example_valid_heap q = example_valid_config" for q
    by (simp add: example_valid_heap_def)
  have cf: "configs example_valid_heap_flat q = example_valid_config_flat" for q
    by (simp add: example_valid_heap_flat_def)
  have q: "(1::nat) \<noteq> 0" by simp
  have w1: "configs (snd (GetLogger id example_lib (Some 0) example_valid_heap)) 1 = example_valid_config"
  proof -
    have "configs (snd (GetLogger id example_lib (Some 0) example_valid_heap)) 1 = configs example_valid_heap 1"
      by (rule r1 [THEN conjunct1, rule_format, OF q])
    then show ?thesis by (simp add: c)
  qed
  have h3: "Filename (configs example_valid_heap 0) \<noteq> ''''"
    by (simp add: c example_valid_config_def)
  have w3: "Filename (configs (snd (GetLogger id example_lib (Some 0) example_valid_heap)) 0) = ''app.log''"
  proof -
    have "Filename (configs (snd (GetLogger id example_lib (Some 0) example_valid_heap)) 0) = Filename (configs example_valid_heap 0)"
      by (rule r3 [THEN conjunct1, rule_format, OF h3])
    then show ?thesis by (simp add: c example_valid_config_def)
  qed
  have h4: "TimeFormat (configs example_valid_heap 0) \<noteq> ''''"
    by (simp add: c example_valid_config_def)
  have w4: "TimeFormat (configs (snd (GetLogger id example_lib (Some 0) example_valid_heap)) 0) = ''15:04:05''"
  proof -
    have "TimeFormat (configs (snd (GetLogger id example_lib (Some 0) example_valid_heap)) 0) = TimeFormat (configs example_valid_heap 0)"
      by (rule r4 [THEN conjunct1, rule_format, OF h4])
    then show ?thesis by (simp add: c example_valid_config_def)
  qed
  have h5: "0 \<le> MaxSize (configs example_valid_heap 0)"
    by (simp add: c example_valid_config_def)
  have w5: "MaxSize (configs (snd (GetLogger id example_lib (Some 0) example_valid_heap)) 0) = 0"
  proof -
    have "MaxSize (configs (snd (GetLogger id example_lib (Some 0) example_valid_heap)) 0) = MaxSize (configs example_valid_heap 0)"
      by (rule r5 [THEN conjunct1, rule_format, OF h5])
    then show ?thesis by (simp add: c example_valid_config_def)
  qed
  have h6: "0 \<le> MaxBackups (configs example_valid_heap 0)"
    by (simp add: c example_valid_config_def)
  have w6: "MaxBackups (configs (snd (GetLogger id example_lib (Some 0) example_valid_heap)) 0) = 3"
  proof -
    have "MaxBackups (configs (snd (GetLogger id example_lib (Some 0) example_valid_heap)) 0) = MaxBackups (configs example_valid_heap 0)"
      by (rule r6 [THEN conjunct1, rule_format, OF h6])
    then show ?thesis by (simp add: c example_valid_config_def)
  qed
  have h7: "0 \<le> MaxAge (configs example_valid_heap 0)"
    by (simp add: c example_valid_config_def)
  have w7: "MaxAge (configs (snd (GetLogger id example_lib (Some 0) example_valid_heap)) 0) = 7"
  proof -
    have "MaxAge (configs (snd (GetLogger id example_lib (Some 0) example_valid_heap)) 0) = MaxAge (configs example_valid_heap 0)"
      by (rule r7 [THEN conjunct1, rule_format, OF h7])
    then show ?thesis by (simp add: c example_valid_config_def)
  qed
  have h8: "Encoder (configs example_valid_heap 0) \<noteq> ''''"
    by (simp add: c example_valid_config_def)
  have w8: "Encoder (configs (snd (GetLogger id example_lib (Some 0) example_valid_heap)) 0) = ''console''"
  proof -
    have "Encoder (configs (snd (GetLogger id example_lib (Some 0) example_valid_heap)) 0) = Encoder (configs example_valid_heap 0)"
      by (rule r8 [THEN conjunct1, rule_format, OF h8])
    then show ?thesis by (simp add: c example_valid_config_def)
  qed
  have h9: "LogLevel (configs example_valid_heap 0) \<noteq> '''' \<and> m (ToLower id (LogLevel (configs example_valid_heap 0))) \<noteq> None"
    using l by (simp add: c example_valid_config_def)
  have w9: "LogLevel (configs (snd (GetLogger id example_lib (Some 0) example_valid_heap)) 0) = ''ERROR''"
  proof -
    have "LogLevel (configs (snd (GetLogger id example_lib (Some 0) example_valid_heap)) 0) = LogLevel (configs example_valid_heap 0)"
      by (rule r9 [THEN conjunct1, rule_format, OF h9])
    then show ?thesis by (simp add: c example_valid_config_def)
  qed
  have w12: "configs (snd (GetLogger_flat id example_lib (Some 0) example_valid_heap_flat)) 1 = example_valid_config_flat"
  proof -
    have "configs (snd (GetLogger_flat id example_lib (Some 0) example_valid_heap_flat)) 1 = configs example_valid_heap_flat 1"
      by (rule r12 [THEN conjunct1, rule_format, OF q])
    then show ?thesis by (simp add: cf)
  qed
  have h14: "Filename (configs example_valid_heap_flat 0) \<noteq> ''''"
    by (simp add: cf example_valid_config_flat_def)
  have w14: "Filename (configs (snd (GetLogger_flat id example_lib (Some 0) example_valid_heap_flat)) 0) = ''app.log''"
  proof -
    have "Filename (configs (snd (GetLogger_flat id example_lib (Some 0) example_valid_heap_flat)) 0) = Filename (configs example_valid_heap_flat 0)"
      by (rule r14 [THEN conjunct1, rule_format, OF h14])
    then show ?thesis by (simp add: cf example_valid_config_flat_def)
  qed
  have h15: "TimeFormat (configs example_valid_heap_flat 0) \<noteq> ''''"
    by (simp add: cf example_valid_config_flat_def)
  have w15: "TimeFormat (configs (snd (GetLogger_flat id example_lib (Some 0) example_valid_heap_flat)) 0) = ''15:04:05''"
  proof -
    have "TimeFormat (configs (snd (GetLogger_flat id example_lib (Some 0) example_valid_heap_flat)) 0) = TimeFormat (configs example_valid_heap_flat 0)"
      by (rule r15 [THEN conjunct1, rule_format, OF h15])
    then show ?thesis by (simp add: cf example_valid_config_flat_def)
  qed
  have h16: "0 \<le> MaxSize (configs example_valid_heap_flat 0)"
    by (simp add: cf example_valid_config_flat_def)
  have w16: "MaxSize (configs (snd (GetLogger_flat id example_lib (Some 0) example_valid_heap_flat)) 0) = 0"
  proof -
    have "MaxSize (configs (snd (GetLogger_flat id example_lib (Some 0) example_valid_heap_flat)) 0) = MaxSize (configs example_valid_heap_flat 0)"
      by (rule r16 [THEN conjunct1, rule_format, OF h16])
    then show ?thesis by (simp add: cf example_valid_config_flat_def)
  qed
  have h17: "0 \<le> MaxBackups (configs example_valid_heap_flat 0)"
    by (simp add: cf example_valid_config_flat_def)
  have w17: "MaxBackups (configs (snd (GetLogger_flat id example_lib (Some 0) example_valid_heap_flat)) 0) = 3"
  proof -
    have "MaxBackups (configs (snd (GetLogger_flat id example_lib (Some 0) example_valid_heap_flat)) 0) = MaxBackups (configs example_valid_heap_flat 0)"
      by (rule r17 [THEN conjunct1, rule_format, OF h17])
    then show ?thesis by (simp add: cf example_valid_config_flat_def)
  qed
  have h18: "0 \<le> MaxAge (configs example_valid_heap_flat 0)"
    by (simp add: cf example_valid_config_flat_def)
  have w18: "MaxAge (configs (snd (GetLogger_flat id example_lib (Some 0) example_valid_heap_flat)) 0) = 7"
  proof -
    have "MaxAge (configs (snd (GetLogger_flat id example_lib (Some 0) example_valid_heap_flat)) 0) = MaxAge (configs example_valid_heap_flat 0)"
      by (rule r18 [THEN conjunct1, rule_format, OF h18])
    then show ?thesis by (simp add: cf example_valid_config_flat_def)
  qed
  have h19: "LogLevel (configs example_valid_heap_flat 0) \<noteq> '''' \<and> m (ToLower id (LogLevel (configs example_valid_heap_flat 0))) \<noteq> None"
    using l by (simp add: cf example_valid_config_flat_def)
  have w19: "LogLevel (configs (snd (GetLogger_flat id example_lib (Some 0) example_valid_heap_flat)) 0) = ''ERROR''"
  proof -
    have "LogLevel (configs (snd (GetLogger_flat id example_lib (Some 0) example_valid_heap_flat)) 0) = LogLevel (configs example_valid_heap_flat 0)"
      by (rule r19 [THEN conjunct1, rule_format, OF h19])
    then show ?thesis by (simp add: cf example_valid_config_flat_def)
  qed
  have h21: "Filename (configs example_empty_heap 0) = ''''"
    by (simp add: example_empty_heap_def example_empty_config_def ToLower_verbose m_def)
  have w21: "Filename (configs (snd (GetLogger id example_lib (Some 0) example_empty_heap)) 0) = ''./logs/pzlog.log''"
    by (rule e21 [THEN conjunct1, rule_format, OF h21])
  have h22: "TimeFormat (configs example_empty_heap 0) = ''''"
    by (simp add: example_empty_heap_def example_empty_config_def ToLower_verbose m_def)
  have w22: "TimeFormat (configs (snd (GetLogger id example_lib (Some 0) example_empty_heap)) 0) = ''2006-01-02 15:04:05''"
    by (rule e22 [THEN conjunct1, rule_format, OF h22])
  have h23: "MaxSize (configs example_empty_heap 0) < 0"
    by (simp add: example_empty_heap_def example_empty_config_def ToLower_verbose m_def)
  have w23: "MaxSize (configs (snd (GetLogger id example_lib (Some 0) example_empty_heap)) 0) = 100"
    by (rule e23 [THEN conjunct1, rule_format, OF h23])
  have h24: "MaxBackups (configs example_empty_heap 0) < 0"
    by (simp add: example_empty_heap_def example_empty_config_def ToLower_verbose m_def)
  have w24: "MaxBackups (configs (snd (GetLogger id example_lib (Some 0) example_empty_heap)) 0) = 10"
    by (rule e24 [THEN conjunct1, rule_format, OF h24])
  have h25: "MaxAge (configs example_empty_heap 0) < 0"
    by (simp add: example_empty_heap_def example_empty_config_def ToLower_verbose m_def)
  have w25: "MaxAge (configs (snd (GetLogger id example_lib (Some 0) example_empty_heap)) 0) = 30"
    by (rule e25 [THEN conjunct1, rule_format, OF h25])
  have h26: "Encoder (configs example_empty_heap 0) = ''''"
    by (simp add: example_empty_heap_def example_empty_config_def ToLower_verbose m_def)
  have w26: "Encoder (configs (snd (GetLogger id example_lib (Some 0) example_empty_heap)) 0) = ''json''"
    by (rule e26 [THEN conjunct1, rule_format, OF h26])
  have h27: "LogLevel (configs example_empty_heap 0) = '''' \<or> m (ToLower id (LogLevel (configs example_empty_heap 0))) = None"
    by (simp add: example_empty_heap_def example_empty_config_def ToLower_verbose m_def)
  have w27: "LogLevel (configs (snd (GetLogger id example_lib (Some 0) example_empty_heap)) 0) = ''info''"
    by (rule e27 [THEN conjunct1, rule_format, OF h27])
  have h28: "Filename (configs example_empty_heap_flat 0) = ''''"
    by (simp add: example_empty_heap_flat_def example_empty_config_flat_def)
  have w28: "Filename (configs (snd (GetLogger_flat id example_lib (Some 0) example_empty_heap_flat)) 0) = ''./logs/pzlog.log''"
    by (rule e28 [THEN conjunct1, rule_format, OF h28])
  have h29: "TimeFormat (configs example_empty_heap_flat 0) = ''''"
    by (simp add: example_empty_heap_flat_def example_empty_config_flat_def)
  have w29: "TimeFormat (configs (snd (GetLogger_flat id example_lib (Some 0) example_empty_heap_flat)) 0) = ''2006-01-02 15:04:05''"
    by (rule e29 [THEN conjunct1, rule_format, OF h29])
  have h30: "MaxSize (configs example_empty_heap_flat 0) < 0"
    by (simp add: example_empty_heap_flat_def example_empty_config_flat_def)
  have w30: "MaxSize (configs (snd (GetLogger_flat id example_lib (Some 0) example_empty_heap_flat)) 0) = 100"
    by (rule e30 [THEN conjunct1, rule_format, OF h30])
  have h31: "MaxBackups (configs example_empty_heap_flat 0) < 0"
    by (simp add: example_empty_heap_flat_def example_empty_config_flat_def)
  have w31: "MaxBackups (configs (snd (GetLogger_flat id example_lib (Some 0) example_empty_heap_flat)) 0) = 10"
    by (rule e31 [THEN conjunct1, rule_format, OF h31])
  have h32: "MaxAge (configs example_empty_heap_flat 0) < 0"
    by (simp add: example_empty_heap_flat_def example_empty_config_flat_def)
  have w32: "MaxAge (configs (snd (GetLogger_flat id example_lib (Some 0) example_empty_heap_flat)) 0) = 30"
    by (rule e32 [THEN conjunct1, rule_format, OF h32])
  have h33: "LogLevel (configs example_empty_heap_flat 0) = '''' \<or> m (ToLower id (LogLevel (configs example_empty_heap_flat 0))) = None"
    by (simp add: example_empty_heap_flat_def example_empty_config_flat_def)
  have w33: "LogLevel (configs (snd (GetLogger_flat id example_lib (Some 0) example_empty_heap_flat)) 0) = ''info''"
    by (rule e33 [rule_format, OF h33])
  show ?thesis
    by (intro conjI) (rule w1, rule w3, rule w4, rule w5, rule w6, rule w7, rule w8, rule w9, rule w12, rule w14, rule w15, rule w16, rule w17, rule w18, rule w19, rule w21, rule w22, rule w23, rule w24, rule w25, rule w26, rule w27, rule w28, rule w29, rule w30, rule w31, rule w32, rule w33)
qed

text \<open>
  C9. For a nil configuration \<^verbatim>\<open>GetLogger\<close> allocates the default configuration,
  normalizes it and builds the logger from it: one file core on
  \<^verbatim>\<open>./logs/pzlog.log\<close> with the rotation parameters 100, 10 and 30, gated at info
  (with the JSON encoder in the first text, the console encoder in the second). For
  every input, nil or not, \<^verbatim>\<open>GetLogger\<close> returns a logger with caller capture whose
  core is wired as \<open>wired\<close> says. The source has no error return and no panic on this
  path, so the model is a total function without an error value.
\<close>

theorem GetLogger_nil_uses_defaults:
  "fst (GetLogger U Z None h) =
     zap_New_AddCaller
       (NewCore (fst (getEncoder Z ''json'' h))
          (AddSync \<lparr>Filename = ''./logs/pzlog.log'', MaxSize = 100, MaxBackups = 10, MaxAge = 30\<rparr>)
          InfoLevel)
   \<and> enc_kind (fst (getEncoder Z ''json'' h)) = JSONEncoder
   \<and> configs (snd (GetLogger U Z None h)) (nconfigs h) = setDefaultValue U DefaultConfig
   \<and> fst (GetLogger_flat U Z None hf) =
     zap_New_AddCaller
       (NewCore (fst (getEncoder_flat Z hf))
          (AddSync \<lparr>Filename = ''./logs/pzlog.log'', MaxSize = 100, MaxBackups = 10, MaxAge = 30\<rparr>)
          InfoLevel)
   \<and> configs (snd (GetLogger_flat U Z None hf)) (nconfigs hf) = setDefaultValue_flat U DefaultConfig_flat
   \<and> addCaller (fst (GetLogger U Z config h)) \<and> wired (core (fst (GetLogger U Z config h)))
   \<and> addCaller (fst (GetLogger_flat U Z config hf)) \<and> wired (core (fst (GetLogger_flat U Z config hf)))"
proof -
  have d: "setDefaultValue U DefaultConfig =
      DefaultConfig\<lparr>TimeFormat := logTmFmt, Encoder := ''json'', LogLevel := ''info''\<rparr>"
    by (simp add: setDefaultValue_closed DefaultConfig_def)
  have df: "setDefaultValue_flat U DefaultConfig_flat = DefaultConfig_flat\<lparr>LogLevel := ''info''\<rparr>"
    by (simp add: setDefaultValue_flat_closed DefaultConfig_flat_def logTmFmt_ne)
  have e: "Encoder (setDefaultValue U DefaultConfig) = ''json''"
    unfolding d by simp
  have ws: "getWriteSyncer (setDefaultValue U DefaultConfig) =
      AddSync \<lparr>Filename = ''./logs/pzlog.log'', MaxSize = 100, MaxBackups = 10, MaxAge = 30\<rparr>"
    unfolding d by (simp add: DefaultConfig_def getWriteSyncer_def)
  have wsf: "GetWriteSyncer_flat (setDefaultValue_flat U DefaultConfig_flat) =
      AddSync \<lparr>Filename = ''./logs/pzlog.log'', MaxSize = 100, MaxBackups = 10, MaxAge = 30\<rparr>"
    unfolding df by (simp add: DefaultConfig_flat_def GetWriteSyncer_flat_def)
  have pc: "\<not> PrintConsole DefaultConfig" "\<not> PrintConsole DefaultConfig_flat"
    by (simp_all add: DefaultConfig_def DefaultConfig_flat_def)
  have g: "getLevelEnabler U (setDefaultValue U DefaultConfig) = InfoLevel"
    by (simp add: effective_level DefaultConfig_def m_empty)
  have gf: "getLevelEnabler U (setDefaultValue_flat U DefaultConfig_flat) = InfoLevel"
    by (simp add: effective_level_flat DefaultConfig_flat_def m_empty)
  have 1: "fst (GetLogger U Z None h) =
     zap_New_AddCaller
       (NewCore (fst (getEncoder Z ''json'' h))
          (AddSync \<lparr>Filename = ''./logs/pzlog.log'', MaxSize = 100, MaxBackups = 10, MaxAge = 30\<rparr>)
          InfoLevel)"
    unfolding GetLogger_None GetLogger_Some
    by (simp add: Let_def g e ws pc getEncoder_def NewJSONEncoder_def)
  have 2: "configs (snd (GetLogger U Z None h)) (nconfigs h) = setDefaultValue U DefaultConfig"
    unfolding GetLogger_None GetLogger_Some by (simp add: Let_def)
  have 3: "fst (GetLogger_flat U Z None hf) =
     zap_New_AddCaller
       (NewCore (fst (getEncoder_flat Z hf))
          (AddSync \<lparr>Filename = ''./logs/pzlog.log'', MaxSize = 100, MaxBackups = 10, MaxAge = 30\<rparr>)
          InfoLevel)"
    unfolding GetLogger_flat_None GetLogger_flat_Some
    by (simp add: Let_def gf wsf pc getEncoder_flat_def NewConsoleEncoder_def)
  have 4: "configs (snd (GetLogger_flat U Z None hf)) (nconfigs hf) = setDefaultValue_flat U DefaultConfig_flat"
    unfolding GetLogger_flat_None GetLogger_flat_Some by (simp add: Let_def)
  have w: "addCaller (fst (GetLogger U Z (Some p) h')) \<and> wired (core (fst (GetLogger U Z (Some p) h')))" for p h'
    by (simp add: GetLogger_Some Let_def zap_New_AddCaller_def getWriteSyncer_def sdv_Filename)
  have wf: "addCaller (fst (GetLogger_flat U Z (Some p) h')) \<and> wired (core (fst (GetLogger_flat U Z (Some p) h')))" for p h'
    by (simp add: GetLogger_flat_Some Let_def zap_New_AddCaller_def GetWriteSyncer_flat_def sdv_flat_Filename)
  have 5: "addCaller (fst (GetLogger U Z config h)) \<and> wired (core (fst (GetLogger U Z config h)))"
    by (cases config) (simp_all only: GetLogger_None w)
  have 6: "addCaller (fst (GetLogger_flat U Z config hf)) \<and> wired (core (fst (GetLogger_flat U Z config hf)))"
    by (cases config) (simp_all only: GetLogger_flat_None wf)
  from 1 2 3 4 5 6 show ?thesis by (simp add: getEncoder_kind)
qed

theorem GetLogger_nil_uses_defaults_witness:
  "fst (GetLogger id example_lib None example_heap) =
     zap_New_AddCaller
       (NewCore (fst (getEncoder example_lib ''json'' example_heap))
          (AddSync \<lparr>Filename = ''./logs/pzlog.log'', MaxSize = 100, MaxBackups = 10, MaxAge = 30\<rparr>)
          InfoLevel)
   \<and> wired (core (fst (GetLogger id example_lib (Some 0) example_heap)))
   \<and> wired (core (fst (GetLogger_flat id example_lib None example_heap_flat)))"
proof -
  note a = GetLogger_nil_uses_defaults [of id example_lib example_heap example_heap_flat "Some 0"]
  note b = GetLogger_nil_uses_defaults [of id example_lib example_heap example_heap_flat None]
  note a5 = a [THEN conjunct2, THEN conjunct2, THEN conjunct2, THEN conjunct2, THEN conjunct2]
  note b5 = b [THEN conjunct2, THEN conjunct2, THEN conjunct2, THEN conjunct2, THEN conjunct2]
  show ?thesis
    by (intro conjI)
      (rule a [THEN conjunct1], rule a5 [THEN conjunct2, THEN conjunct1],
       rule b5 [THEN conjunct2, THEN conjunct2, THEN conjunct2])
qed

text \<open>
  C8. \<^verbatim>\<open>getEncoder\<close> returns the console encoder for the name \<^verbatim>\<open>console\<close> and the
  JSON encoder for every other name; it has no error result. An empty name is
  normalized to \<^verbatim>\<open>json\<close>, so after normalization every name but \<^verbatim>\<open>console\<close>
  selects the JSON encoder, and the encoders of the logger that \<^verbatim>\<open>GetLogger\<close> builds
  are of the selected kind.
\<close>

theorem getEncoder_two_variants:
  "(types = ''console'' \<longrightarrow> enc_kind (fst (getEncoder Z types h)) = ConsoleEncoder)
   \<and> (types \<noteq> ''console'' \<longrightarrow> enc_kind (fst (getEncoder Z types h)) = JSONEncoder)
   \<and> (Encoder c = '''' \<longrightarrow> Encoder (setDefaultValue U c) = ''json'')
   \<and> (Encoder c \<noteq> ''console'' \<longrightarrow>
        enc_kind (fst (getEncoder Z (Encoder (setDefaultValue U c)) h)) = JSONEncoder)
   \<and> (Encoder c = ''console'' \<longrightarrow>
        enc_kind (fst (getEncoder Z (Encoder (setDefaultValue U c)) h)) = ConsoleEncoder)
   \<and> list_all (\<lambda>e. enc_kind e = (if Encoder (configs hp p) = ''console'' then ConsoleEncoder else JSONEncoder))
        (core_encoders (core (fst (GetLogger U Z (Some p) hp))))"
proof -
  have k: "Encoder (setDefaultValue U c) = (if Encoder c = '''' then ''json'' else Encoder c)" for c
    by (simp add: setDefaultValue_closed)
  show ?thesis
    by (simp add: getEncoder_kind k GetLogger_Some Let_def zap_New_AddCaller_def)
qed

theorem getEncoder_two_variants_witness:
  "enc_kind (fst (getEncoder example_lib ''console'' example_heap)) = ConsoleEncoder
   \<and> enc_kind (fst (getEncoder example_lib ''yaml'' example_heap)) = JSONEncoder
   \<and> Encoder (setDefaultValue id example_config) = ''json''
   \<and> enc_kind (fst (getEncoder example_lib (Encoder (setDefaultValue id example_config)) example_heap)) = JSONEncoder
   \<and> enc_kind (fst (getEncoder example_lib (Encoder (setDefaultValue id example_valid_config)) example_heap)) = ConsoleEncoder"
proof -
  note a = getEncoder_two_variants [of "''console''" example_lib example_heap example_config id example_heap 0]
  note b = getEncoder_two_variants [of "''yaml''" example_lib example_heap example_valid_config id example_heap 0]
  have 1: "enc_kind (fst (getEncoder example_lib ''console'' example_heap)) = ConsoleEncoder"
    by (rule a [THEN conjunct1, rule_format]) simp
  have 2: "enc_kind (fst (getEncoder example_lib ''yaml'' example_heap)) = JSONEncoder"
    by (rule b [THEN conjunct2, THEN conjunct1, rule_format]) simp
  have 3: "Encoder (setDefaultValue id example_config) = ''json''"
    by (rule a [THEN conjunct2, THEN conjunct2, THEN conjunct1, rule_format])
      (simp add: example_config_def)
  have 4: "enc_kind (fst (getEncoder example_lib (Encoder (setDefaultValue id example_config)) example_heap)) = JSONEncoder"
    by (rule a [THEN conjunct2, THEN conjunct2, THEN conjunct2, THEN conjunct1, rule_format])
      (simp add: example_config_def)
  have 5: "enc_kind (fst (getEncoder example_lib (Encoder (setDefaultValue id example_valid_config)) example_heap)) = ConsoleEncoder"
    by (rule b [THEN conjunct2, THEN conjunct2, THEN conjunct2, THEN conjunct2, THEN conjunct1, rule_format])
      (simp add: example_valid_config_def)
  from 1 2 3 4 5 show ?thesis by simp
qed

section \<open>Delivery\<close>

text \<open>
  C3. A record whose level is strictly below the configured minimum level (the level
  of the normalized configuration; info for a nil configuration) produces no emission
  event on the logger that \<^verbatim>\<open>GetLogger\<close> builds: no encoder is invoked and no sink is
  written, with or without the console core, in both texts.
\<close>

theorem below_minimum_dropped:
  "(level_int (ent_Level ent) < level_int (getLevelEnabler U (setDefaultValue U (configs h p))) \<longrightarrow>
      emit EncodeEntry (fst (GetLogger U Z (Some p) h)) ent fs = [])
   \<and> (level_int (ent_Level ent) < level_int InfoLevel \<longrightarrow>
      emit EncodeEntry (fst (GetLogger U Z None h)) ent fs = [])
   \<and> (level_int (ent_Level ent) < level_int (getLevelEnabler U (setDefaultValue_flat U (configs hf p))) \<longrightarrow>
      emit EncodeEntry (fst (GetLogger_flat U Z (Some p) hf)) ent fs = [])
   \<and> (level_int (ent_Level ent) < level_int InfoLevel \<longrightarrow>
      emit EncodeEntry (fst (GetLogger_flat U Z None hf)) ent fs = [])"
proof -
  have g: "getLevelEnabler U (setDefaultValue U DefaultConfig) = InfoLevel"
    by (simp add: effective_level DefaultConfig_def m_empty)
  have gf: "getLevelEnabler U (setDefaultValue_flat U DefaultConfig_flat) = InfoLevel"
    by (simp add: effective_level_flat DefaultConfig_flat_def m_empty)
  have s: "level_int (ent_Level ent) < level_int (getLevelEnabler U (setDefaultValue U (configs h' q))) \<Longrightarrow>
      emit EncodeEntry (fst (GetLogger U Z (Some q) h')) ent fs = []" for h' q
    by (simp add: GetLogger_Some Let_def zap_New_AddCaller_def emit_def Enabled_def)
  have sf: "level_int (ent_Level ent) < level_int (getLevelEnabler U (setDefaultValue_flat U (configs h' q))) \<Longrightarrow>
      emit EncodeEntry (fst (GetLogger_flat U Z (Some q) h')) ent fs = []" for h' q
    by (simp add: GetLogger_flat_Some Let_def zap_New_AddCaller_def emit_def Enabled_def)
  show ?thesis
    unfolding GetLogger_None GetLogger_flat_None
    using s [of h p] sf [of hf p]
      s [of "h\<lparr>configs := (configs h)(nconfigs h := DefaultConfig), nconfigs := nconfigs h + 1\<rparr>" "nconfigs h"]
      sf [of "hf\<lparr>configs := (configs hf)(nconfigs hf := DefaultConfig_flat), nconfigs := nconfigs hf + 1\<rparr>" "nconfigs hf"]
    by (simp add: g gf)
qed

theorem below_minimum_dropped_witness:
  "emit example_EncodeEntry (fst (GetLogger id example_lib (Some 0) example_heap))
      (example_Entry\<lparr>ent_Level := InfoLevel\<rparr>) [] = []
   \<and> emit example_EncodeEntry (fst (GetLogger id example_lib None example_heap))
      (example_Entry\<lparr>ent_Level := DebugLevel\<rparr>) [] = []
   \<and> emit example_EncodeEntry (fst (GetLogger_flat id example_lib (Some 0) example_heap_flat))
      (example_Entry\<lparr>ent_Level := DebugLevel\<rparr>) [] = []
   \<and> emit example_EncodeEntry (fst (GetLogger_flat id example_lib None example_heap_flat))
      (example_Entry\<lparr>ent_Level := DebugLevel\<rparr>) [] = []"
proof -
  note a = below_minimum_dropped [of "example_Entry\<lparr>ent_Level := InfoLevel\<rparr>" id example_heap 0
      example_EncodeEntry example_lib "[]" example_heap_flat]
  note b = below_minimum_dropped [of "example_Entry\<lparr>ent_Level := DebugLevel\<rparr>" id example_heap 0
      example_EncodeEntry example_lib "[]" example_heap_flat]
  have 1: "emit example_EncodeEntry (fst (GetLogger id example_lib (Some 0) example_heap))
      (example_Entry\<lparr>ent_Level := InfoLevel\<rparr>) [] = []"
    by (rule a [THEN conjunct1, rule_format]) (simp add: example_heap_def effective_WaRn)
  have 2: "emit example_EncodeEntry (fst (GetLogger id example_lib None example_heap))
      (example_Entry\<lparr>ent_Level := DebugLevel\<rparr>) [] = []"
    by (rule b [THEN conjunct2, THEN conjunct1, rule_format]) simp
  have 3: "emit example_EncodeEntry (fst (GetLogger_flat id example_lib (Some 0) example_heap_flat))
      (example_Entry\<lparr>ent_Level := DebugLevel\<rparr>) [] = []"
    by (rule b [THEN conjunct2, THEN conjunct2, THEN conjunct1, rule_format])
      (simp add: example_heap_flat_def effective_verbose)
  have 4: "emit example_EncodeEntry (fst (GetLogger_flat id example_lib None example_heap_flat))
      (example_Entry\<lparr>ent_Level := DebugLevel\<rparr>) [] = []"
    by (rule b [THEN conjunct2, THEN conjunct2, THEN conjunct2, rule_format]) simp
  from 1 2 3 4 show ?thesis by simp
qed

text \<open>
  C1, as stated, fails on the first text: with the console flag set, both cores of the
  fan-out hold the same encoder object (the call of \<^verbatim>\<open>getConsoleEncoder\<close> is commented
  out and \<^verbatim>\<open>Encoder\<close> is passed to both \<^verbatim>\<open>NewCore\<close> calls).
\<close>

theorem shared_encoder_counterexample:
  "PrintConsole (configs example_heap 0)
   \<and> map enc_id (core_encoders (core (fst (GetLogger id example_lib (Some 0) example_heap)))) = [0, 0]
   \<and> \<not> distinct (map enc_id (core_encoders (core (fst (GetLogger id example_lib (Some 0) example_heap)))))"
  by (simp add: GetLogger_Some Let_def zap_New_AddCaller_def getEncoder_id)
    (simp add: example_heap_def example_config_def)

text \<open>
  C1, amended. With the console flag set, \<^verbatim>\<open>GetLogger\<close> composes a fan-out of two
  cores behind the same gate, the first on the file sink and the second on the locked
  standard output, and a record at or above the configured minimum level is delivered
  once to each. In the first text both cores hold the one encoder selected by the
  format name, so both sinks receive what that encoder produces. In the second text the
  console core has an encoder of its own, a console encoder over zap's development
  configuration with an identity different from the file core's encoder, and each sink
  receives what its core's encoder produces.
\<close>

theorem console_fan_out:
  "(PrintConsole (configs h p) \<longrightarrow>
      (let cfg = setDefaultValue U (configs h p);
           e = fst (getEncoder Z (Encoder cfg) h);
           g = getLevelEnabler U cfg;
           lg = fst (GetLogger U Z (Some p) h)
       in core lg = NewTee [NewCore e (getWriteSyncer cfg) g, NewCore e Lock_Stdout g]
          \<and> (Enabled g (ent_Level ent) \<longrightarrow>
                emit EncodeEntry lg ent fs =
                  [(getWriteSyncer cfg, enc_id e, EncodeEntry e ent fs),
                   (Lock_Stdout, enc_id e, EncodeEntry e ent fs)])))
   \<and> (PrintConsole (configs hf p) \<longrightarrow>
      (let cfg = setDefaultValue_flat U (configs hf p);
           e = fst (getEncoder_flat Z hf);
           e' = fst (getConsoleEncoder_flat Z (snd (getEncoder_flat Z hf)));
           g = getLevelEnabler U cfg;
           lg = fst (GetLogger_flat U Z (Some p) hf)
       in core lg = NewTee [NewCore e (GetWriteSyncer_flat cfg) g, NewCore e' Lock_Stdout g]
          \<and> enc_id e \<noteq> enc_id e'
          \<and> enc_config e' = NewDevelopmentEncoderConfig Z
          \<and> (Enabled g (ent_Level ent) \<longrightarrow>
                emit EncodeEntry lg ent fs =
                  [(GetWriteSyncer_flat cfg, enc_id e, EncodeEntry e ent fs),
                   (Lock_Stdout, enc_id e', EncodeEntry e' ent fs)])))"
proof (intro conjI impI)
  assume "PrintConsole (configs h p)"
  then show "let cfg = setDefaultValue U (configs h p);
           e = fst (getEncoder Z (Encoder cfg) h);
           g = getLevelEnabler U cfg;
           lg = fst (GetLogger U Z (Some p) h)
       in core lg = NewTee [NewCore e (getWriteSyncer cfg) g, NewCore e Lock_Stdout g]
          \<and> (Enabled g (ent_Level ent) \<longrightarrow>
                emit EncodeEntry lg ent fs =
                  [(getWriteSyncer cfg, enc_id e, EncodeEntry e ent fs),
                   (Lock_Stdout, enc_id e, EncodeEntry e ent fs)])"
    by (simp add: GetLogger_Some Let_def zap_New_AddCaller_def emit_def)
next
  assume "PrintConsole (configs hf p)"
  then show "let cfg = setDefaultValue_flat U (configs hf p);
           e = fst (getEncoder_flat Z hf);
           e' = fst (getConsoleEncoder_flat Z (snd (getEncoder_flat Z hf)));
           g = getLevelEnabler U cfg;
           lg = fst (GetLogger_flat U Z (Some p) hf)
       in core lg = NewTee [NewCore e (GetWriteSyncer_flat cfg) g, NewCore e' Lock_Stdout g]
          \<and> enc_id e \<noteq> enc_id e'
          \<and> enc_config e' = NewDevelopmentEncoderConfig Z
          \<and> (Enabled g (ent_Level ent) \<longrightarrow>
                emit EncodeEntry lg ent fs =
                  [(GetWriteSyncer_flat cfg, enc_id e, EncodeEntry e ent fs),
                   (Lock_Stdout, enc_id e', EncodeEntry e' ent fs)])"
    by (simp add: GetLogger_flat_Some Let_def zap_New_AddCaller_def emit_def
        getEncoder_flat_id getEncoder_flat_snd getConsoleEncoder_flat_eq)
qed

theorem console_fan_out_witness:
  "emit example_EncodeEntry (fst (GetLogger id example_lib (Some 0) example_heap)) example_Entry [] =
     [(AddSync \<lparr>Filename = ''./logs/pzlog.log'', MaxSize = 100, MaxBackups = 10, MaxAge = 30\<rparr>, 0,
       ''2006-01-02 15:04:05 boom'' @ [CHR 0x0A]),
      (Lock_Stdout, 0, ''2006-01-02 15:04:05 boom'' @ [CHR 0x0A])]
   \<and> emit example_EncodeEntry (fst (GetLogger_flat id example_lib (Some 0) example_heap_flat)) example_Entry [] =
     [(AddSync \<lparr>Filename = ''app.log'', MaxSize = 100, MaxBackups = 10, MaxAge = 30\<rparr>, 0,
       ''[2006-01-02 15:04:05] boom  ''),
      (Lock_Stdout, 1, ''TIME boom'' @ [CHR 0x0A])]"
proof -
  note a = console_fan_out [where h = example_heap and p = 0 and U = id and Z = example_lib
      and ent = example_Entry and EncodeEntry = example_EncodeEntry and fs = "[]"
      and hf = example_heap_flat]
  have c: "configs example_heap 0 = example_config" "configs example_heap_flat 0 = example_config_flat"
    by (simp_all add: example_heap_def example_heap_flat_def)
  have p: "PrintConsole (configs example_heap 0)" "PrintConsole (configs example_heap_flat 0)"
    by (simp_all add: c example_config_def example_config_flat_def)
  have en: "Enabled (getLevelEnabler id (setDefaultValue id (configs example_heap 0))) (ent_Level example_Entry)"
    "Enabled (getLevelEnabler id (setDefaultValue_flat id (configs example_heap_flat 0))) (ent_Level example_Entry)"
    by (simp_all add: c effective_WaRn effective_verbose Enabled_def example_Entry_def)
  have ws: "getWriteSyncer (setDefaultValue id example_config) =
      AddSync \<lparr>Filename = ''./logs/pzlog.log'', MaxSize = 100, MaxBackups = 10, MaxAge = 30\<rparr>"
    "GetWriteSyncer_flat (setDefaultValue_flat id example_config_flat) =
      AddSync \<lparr>Filename = ''app.log'', MaxSize = 100, MaxBackups = 10, MaxAge = 30\<rparr>"
    by (simp_all add: getWriteSyncer_def GetWriteSyncer_flat_def setDefaultValue_closed
        setDefaultValue_flat_closed example_config_def example_config_flat_def)
  have b1: "example_EncodeEntry (fst (getEncoder example_lib t example_heap)) example_Entry [] =
      ''2006-01-02 15:04:05 boom'' @ [CHR 0x0A]" for t
    by (simp add: example_EncodeEntry_def getEncoder_def NewConsoleEncoder_def NewJSONEncoder_def
        cEncodeTime_def AppendString_def example_lib_def logTmFmt_def example_Entry_def
        DefaultLineEnding_def)
  have b2: "example_EncodeEntry (fst (getEncoder_flat example_lib example_heap_flat)) example_Entry [] =
      ''[2006-01-02 15:04:05] boom  ''"
    by (simp add: example_EncodeEntry_def getEncoder_flat_def NewConsoleEncoder_def
        cEncodeTime_flat_def AppendString_def example_lib_def logTmFmt_def example_Entry_def)
  have b3: "example_EncodeEntry
        \<lparr>enc_id = n, enc_kind = ConsoleEncoder, enc_config = NewDevelopmentEncoderConfig example_lib\<rparr>
        example_Entry [] = ''TIME boom'' @ [CHR 0x0A]" for n
    by (simp add: example_EncodeEntry_def example_lib_def
        example_EncoderConfig_def AppendString_def example_Entry_def)
  have i: "nencoders example_heap = 0" "nencoders example_heap_flat = 0"
    by (simp_all add: example_heap_def example_heap_flat_def)
  have 1: "emit example_EncodeEntry (fst (GetLogger id example_lib (Some 0) example_heap)) example_Entry [] =
     [(AddSync \<lparr>Filename = ''./logs/pzlog.log'', MaxSize = 100, MaxBackups = 10, MaxAge = 30\<rparr>, 0,
       ''2006-01-02 15:04:05 boom'' @ [CHR 0x0A]),
      (Lock_Stdout, 0, ''2006-01-02 15:04:05 boom'' @ [CHR 0x0A])]"
    using a [THEN conjunct1, rule_format, OF p(1)] en(1)
    by (simp add: Let_def c ws b1 getEncoder_id i)
  have 2: "emit example_EncodeEntry (fst (GetLogger_flat id example_lib (Some 0) example_heap_flat)) example_Entry [] =
     [(AddSync \<lparr>Filename = ''app.log'', MaxSize = 100, MaxBackups = 10, MaxAge = 30\<rparr>, 0,
       ''[2006-01-02 15:04:05] boom  ''),
      (Lock_Stdout, 1, ''TIME boom'' @ [CHR 0x0A])]"
    using a [THEN conjunct2, rule_format, OF p(2)] en(2)
    by (simp add: Let_def c ws b2 b3 getEncoder_flat_id getEncoder_flat_snd getConsoleEncoder_flat_eq i)
  from 1 2 show ?thesis by simp
qed

section \<open>Timestamps\<close>

text \<open>
  C2 fails on the code. With \<^verbatim>\<open>TimeFormat = "15:04:05"\<close> in the configuration, and a
  formatter that returns the layout it is given, the time encoder of every core of the
  logger renders the layout \<^verbatim>\<open>2006-01-02 15:04:05\<close> (in brackets in the second text):
  \<^verbatim>\<open>cEncodeTime\<close> formats with the constant \<^verbatim>\<open>logTmFmt\<close>, and \<^verbatim>\<open>getEncoder\<close> never
  reads \<^verbatim>\<open>TimeFormat\<close>.
\<close>

theorem cEncodeTime_ignores_TimeFormat:
  "TimeFormat (configs (snd (GetLogger id example_lib (Some 0) example_heap)) 0) = ''15:04:05''
   \<and> map (\<lambda>e. EncodeTime (enc_config e) 0 [])
        (core_encoders (core (fst (GetLogger id example_lib (Some 0) example_heap)))) =
      [[''2006-01-02 15:04:05''], [''2006-01-02 15:04:05'']]
   \<and> TimeFormat (configs (snd (GetLogger_flat id example_lib (Some 0) example_valid_heap_flat)) 0) = ''15:04:05''
   \<and> map (\<lambda>e. EncodeTime (enc_config e) 0 [])
        (core_encoders (core (fst (GetLogger_flat id example_lib (Some 0) example_valid_heap_flat)))) =
      [[''[2006-01-02 15:04:05]'']]"
proof -
  have 1: "TimeFormat (setDefaultValue id example_config) = ''15:04:05''"
    by (simp add: setDefaultValue_closed example_config_def)
  have 2: "TimeFormat (setDefaultValue_flat id example_valid_config_flat) = ''15:04:05''"
    by (simp add: setDefaultValue_flat_closed example_valid_config_flat_def)
  have 3: "cEncodeTime example_lib (0::nat) [] = [''2006-01-02 15:04:05'']"
    by (simp add: cEncodeTime_def AppendString_def example_lib_def logTmFmt_def)
  have 4: "cEncodeTime_flat example_lib (0::nat) [] = [''[2006-01-02 15:04:05]'']"
    by (simp add: cEncodeTime_flat_def AppendString_def example_lib_def logTmFmt_def)
  have 5: "PrintConsole (configs example_heap 0)" "\<not> PrintConsole (configs example_valid_heap_flat 0)"
    by (simp_all add: example_heap_def example_config_def example_valid_heap_flat_def
        example_valid_config_flat_def)
  have 6: "configs example_heap 0 = example_config"
    "configs example_valid_heap_flat 0 = example_valid_config_flat"
    by (simp_all add: example_heap_def example_valid_heap_flat_def)
  show ?thesis
    by (simp add: GetLogger_Some GetLogger_flat_Some Let_def zap_New_AddCaller_def 5
        getEncoder_EncodeTime 3)
      (simp add: 6 1 2 getEncoder_flat_def NewConsoleEncoder_def 4)
qed

section \<open>The request middleware: one record per request\<close>

text \<open>
  C4, as stated, fails: the claim is about every request the handler handles, and for a
  request whose downstream chain panics the handler makes no call on the logger. Here
  the chain sets the status to 500 and panics; the handler ends in that panic and the
  list of calls on the global logger is still empty.
\<close>

theorem GinLogger_panic_counterexample:
  "(\<exists>s. GinLogger example_Next_panic example_State = Panics s \<and> emitted s = [])
   \<and> (\<forall>s. GinLogger example_Next_panic example_State \<noteq> Returns s)"
  by (simp add: GinLogger_def example_Next_panic_def example_State_def)

text \<open>
  C4, amended. For every request whose downstream chain returns, the handler has read
  the path and the raw query before the chain ran, and after the return it makes
  exactly one call on the global logger, at info level: its message is the path read
  before, and its fields are status, method, path, query, ip, user-agent, errors and
  cost, in this order, where path and query are the values read before and the others
  are read after the return; cost is the time since the start. Nothing else of the
  state changes. When the chain panics or never returns, the handler makes no call on
  the logger and ends as the chain did.
\<close>

theorem GinLogger_one_record:
  "(Next s = Returns s1 \<longrightarrow>
      GinLogger Next s =
        Returns (s1\<lparr>emitted := emitted s1 @
          [(InfoLevel, Request_URL_Path (ctx s),
            [zap_Int ''status'' (Writer_Status (ctx s1)),
             zap_String ''method'' (Request_Method (ctx s1)),
             zap_String ''path'' (Request_URL_Path (ctx s)),
             zap_String ''query'' (Request_URL_RawQuery (ctx s)),
             zap_String ''ip'' (ClientIP (ctx s1)),
             zap_String ''user-agent'' (Request_UserAgent (ctx s1)),
             zap_String ''errors'' (Errors_Private_String (ctx s1)),
             zap_Duration ''cost'' (time_Since (clock s) (clock s1))])]\<rparr>))
   \<and> (Next s = Panics s1 \<longrightarrow> GinLogger Next s = Panics s1)
   \<and> (Next s = Never \<longrightarrow> GinLogger Next s = Never)"
  by (simp add: GinLogger_def zap_L_Info_def Let_def)

theorem GinLogger_one_record_example:
  "GinLogger example_Next example_State =
     Returns
       \<lparr>ctx = \<lparr>Request_URL_Path = ''/rewritten'', Request_URL_RawQuery = '''', Request_Method = ''GET'',
                Request_UserAgent = ''curl/8.0'', Writer_Status = 404, ClientIP = ''10.0.0.1'',
                Errors_Private_String = ''''\<rparr>,
        clock = 12001000,
        emitted =
          [(InfoLevel, ''/items'',
            [zap_Int ''status'' 404, zap_String ''method'' ''GET'', zap_String ''path'' ''/items'',
             zap_String ''query'' ''id=5'', zap_String ''ip'' ''10.0.0.1'',
             zap_String ''user-agent'' ''curl/8.0'', zap_String ''errors'' '''',
             zap_Duration ''cost'' 12000000])]\<rparr>
   \<and> GinLogger example_Next_panic example_State = example_Next_panic example_State
   \<and> GinLogger (\<lambda>s. Never) example_State = Never"
proof -
  have r: "example_Next example_State =
      Returns (example_State\<lparr>ctx := (ctx example_State)\<lparr>Request_URL_Path := ''/rewritten'',
          Request_URL_RawQuery := '''', Writer_Status := 404\<rparr>,
        clock := clock example_State + 12000000\<rparr>)"
    by (simp add: example_Next_def)
  have p: "example_Next_panic example_State =
      Panics (example_State\<lparr>ctx := (ctx example_State)\<lparr>Writer_Status := 500\<rparr>,
        clock := clock example_State + 5\<rparr>)"
    by (simp add: example_Next_panic_def)
  have n: "(\<lambda>s. Never) example_State = (Never :: gin_State outcome)" by simp
  note a = GinLogger_one_record [where Next = example_Next and s = example_State,
      THEN conjunct1, rule_format, OF r]
  note b = GinLogger_one_record [where Next = example_Next_panic and s = example_State,
      THEN conjunct2, THEN conjunct1, rule_format, OF p]
  note c = GinLogger_one_record [where Next = "\<lambda>s. Never" and s = example_State,
      THEN conjunct2, THEN conjunct2, rule_format, OF n]
  show ?thesis
    unfolding a b c
    by (simp add: example_Next_panic_def example_State_def time_Since_def minDuration_def
        maxDuration_def)
qed

end
